theory Spec2Isabelle
  imports Complex_Main
begin

section \<open>Values\<close>

text \<open>
  The pipeline of \<^verbatim>\<open>test.py\<close> moves JSON values through pandas columns. A 64-bit float is
  one of the IEEE special values or a finite number, written as the rational it denotes;
  \<open>Fin 0\<close> is the positive zero and \<open>NegZero\<close> the negative one.
\<close>

datatype float64 = NaN | PInf | NInf | NegZero | Fin rat

text \<open>
  A cell is a JSON scalar: \<^verbatim>\<open>None\<close>, an integer (a Python \<^verbatim>\<open>int\<close>, exact), a float or a
  string.
\<close>

datatype cell = CNone | CInt int | CFloat float64 | CStr string

text \<open>\<^verbatim>\<open>pd.isna\<close>: true of \<^verbatim>\<open>None\<close> and of NaN only (an infinity is not missing).\<close>

fun isna :: "cell \<Rightarrow> bool" where
  "isna CNone = True"
| "isna (CFloat NaN) = True"
| "isna _ = False"

text \<open>Python truthiness, as used by \<^verbatim>\<open>if cursor\<close> and \<^verbatim>\<open>if not cursor\<close>.\<close>

fun truthy :: "cell \<Rightarrow> bool" where
  "truthy CNone = False"
| "truthy (CStr s) = (s \<noteq> [])"
| "truthy (CInt n) = (n \<noteq> 0)"
| "truthy (CFloat NegZero) = False"
| "truthy (CFloat (Fin x)) = (x \<noteq> 0)"
| "truthy (CFloat _) = True"

datatype error =
    ConnectionError | JSONDecodeError | KeyError "string list" | ValueError | TypeError | OverflowError

text \<open>Sequencing of fallible steps: the first raised error ends the computation.\<close>

fun bind_err :: "error + 'a \<Rightarrow> ('a \<Rightarrow> error + 'b) \<Rightarrow> error + 'b" where
  "bind_err (Inl e) f = Inl e"
| "bind_err (Inr x) f = f x"

section \<open>Data frames\<close>

text \<open>
  A transaction item is a JSON object (keys in order). A \<^verbatim>\<open>DataFrame\<close> is a number of rows
  and an ordered list of named columns; a \<^verbatim>\<open>Series\<close> is the list of a column's cells.
\<close>

type_synonym item = "(string \<times> cell) list"

type_synonym series = "cell list"

record dataframe =
  nrows :: nat
  cols :: "(string \<times> series) list"

definition columns :: "dataframe \<Rightarrow> string list" where
  "columns df = map fst (cols df)"

text \<open>In a frame of pandas every column has one cell per row.\<close>

definition wf_frame :: "dataframe \<Rightarrow> bool" where
  "wf_frame df = list_all (\<lambda>(k, s). length s = nrows df) (cols df)"

text \<open>First-occurrence order, as \<^verbatim>\<open>pd.unique\<close> and the column inference keep it.\<close>

definition unique :: "'a list \<Rightarrow> 'a list" where
  "unique xs = rev (remdups (rev xs))"

text \<open>
  \<^verbatim>\<open>pd.DataFrame(all_items)\<close> on a list of dicts: one row per item, the columns are the keys
  in order of first appearance, a key an item lacks is NaN in its row. The empty list gives
  the frame with no row and no column. The cells are kept as the items hold them; the
  conversions of a whole column to one numeric type are made where \<^verbatim>\<open>clean_and_export\<close>
  asks for them.
\<close>

definition DataFrame :: "item list \<Rightarrow> dataframe" where
  "DataFrame all_items =
     \<lparr> nrows = length all_items,
       cols = map (\<lambda>k. (k, map (\<lambda>it. case map_of it k of Some v \<Rightarrow> v | None \<Rightarrow> CFloat NaN) all_items))
                  (unique (concat (map (map fst) all_items))) \<rparr>"

text \<open>\<^verbatim>\<open>df[name]\<close>: the column, or \<^verbatim>\<open>KeyError\<close>.\<close>

definition getitem :: "dataframe \<Rightarrow> string \<Rightarrow> error + series" where
  "getitem df name = (case map_of (cols df) name of None \<Rightarrow> Inl (KeyError [name]) | Some s \<Rightarrow> Inr s)"

text \<open>\<^verbatim>\<open>df[name] = s\<close>: overwrites the column where it stands, or appends a new one.\<close>

fun assign :: "(string \<times> series) list \<Rightarrow> string \<Rightarrow> series \<Rightarrow> (string \<times> series) list" where
  "assign [] name s = [(name, s)]"
| "assign ((k, v) # cs) name s = (if k = name then (k, s) # cs else (k, v) # assign cs name s)"

definition setitem :: "dataframe \<Rightarrow> string \<Rightarrow> series \<Rightarrow> dataframe" where
  "setitem df name s = df\<lparr>cols := assign (cols df) name s\<rparr>"

text \<open>
  \<^verbatim>\<open>df[[n1, n2, ...]]\<close>: a new frame of the named columns in the order asked;
  \<^verbatim>\<open>KeyError\<close> with the missing names when one is not a column.
\<close>

definition getitems :: "dataframe \<Rightarrow> string list \<Rightarrow> error + dataframe" where
  "getitems df names =
     (case filter (\<lambda>n. map_of (cols df) n = None) names of
        [] \<Rightarrow> Inr \<lparr> nrows = nrows df, cols = map (\<lambda>n. (n, the (map_of (cols df) n))) names \<rparr>
      | missing \<Rightarrow> Inl (KeyError missing))"

text \<open>\<^verbatim>\<open>df.rename(columns=d)\<close>: a column named by a key of \<open>d\<close> takes the new name.\<close>

definition rename :: "(string \<times> string) list \<Rightarrow> dataframe \<Rightarrow> dataframe" where
  "rename d df =
     df\<lparr>cols := map (\<lambda>(k, s). ((case map_of d k of Some k' \<Rightarrow> k' | None \<Rightarrow> k), s)) (cols df)\<rparr>"

section \<open>Part 1: downloading the transactions\<close>

text \<open>
  What one \<^verbatim>\<open>requests.get\<close> of the transaction endpoint gives back: the status code and
  the body. \<open>NotJson\<close> is a body on which \<^verbatim>\<open>res.json()\<close> raises, \<open>NoItems\<close> a JSON body
  without \<^verbatim>\<open>result.data.items\<close>, \<open>Page items next\<close> a body with the items and the value
  of \<^verbatim>\<open>.get("nextCursor")\<close> (\<open>CNone\<close> when the key is absent).
\<close>

datatype body = NotJson | NoItems | Page "item list" cell

record response =
  status_code :: nat
  body :: body

text \<open>What the process does to the world, in order.\<close>

datatype event =
    GetTransactions cell
  | Sleep
  | GetUser cell
  | GetCountry cell
  | ToCsv dataframe
  | ToExcel dataframe

text \<open>
  The \<^verbatim>\<open>while True\<close> loop of \<^verbatim>\<open>fetch_transactions\<close>. The server is the list of responses
  it gives to the successive requests; \<open>None\<close> says that the loop is still asking when the
  list is used up. The request records the cursor sent (\<open>CNone\<close>: no \<^verbatim>\<open>cursor\<close>
  parameter).
\<close>

fun fetch_loop ::
  "item list \<Rightarrow> cell \<Rightarrow> event list \<Rightarrow> response list \<Rightarrow> (event list \<times> (error + item list)) option"
where
  "fetch_loop all_items cursor tr [] = None"
| "fetch_loop all_items cursor tr (res # rest) =
     (let tr = tr @ [GetTransactions (if truthy cursor then cursor else CNone)] in
      if status_code res \<noteq> 200 then Some (tr, Inr all_items)
      else (case body res of
              NotJson \<Rightarrow> Some (tr, Inl JSONDecodeError)
            | NoItems \<Rightarrow> Some (tr, Inl (KeyError [''items'']))
            | Page items next \<Rightarrow>
                (let all_items = all_items @ items; cursor = next in
                 if \<not> truthy cursor then Some (tr, Inr all_items)
                 else fetch_loop all_items cursor (tr @ [Sleep]) rest)))"

definition fetch_transactions :: "response list \<Rightarrow> (event list \<times> (error + dataframe)) option" where
  "fetch_transactions responses =
     map_option (\<lambda>(tr, r). (tr, map_sum id DataFrame r)) (fetch_loop [] CNone [] responses)"

section \<open>Part 2: resolving the names\<close>

text \<open>
  What the lookup of one identifier meets inside the \<^verbatim>\<open>try\<close> block: \<^verbatim>\<open>requests.get\<close>
  raises, \<^verbatim>\<open>r.json()\<close> raises, the path \<^verbatim>\<open>["result"]["data"][field]\<close> is not there, or the
  field is read.
\<close>

datatype reply = RequestFailed | BadJson | NoField | Field cell

fun try_lookup :: "reply \<Rightarrow> error + cell" where
  "try_lookup RequestFailed = Inl ConnectionError"
| "try_lookup BadJson = Inl JSONDecodeError"
| "try_lookup NoField = Inl (KeyError [''result''])"
| "try_lookup (Field v) = Inr v"

text \<open>
  The globals of the module while \<^verbatim>\<open>__main__\<close> runs: the collection \<^verbatim>\<open>df\<close>, the two
  caches, and the requests made so far.
\<close>

record globals =
  frame :: dataframe
  user_cache :: "cell \<rightharpoonup> cell"
  country_cache :: "cell \<rightharpoonup> cell"
  trace :: "event list"

text \<open>
  \<^verbatim>\<open>fetch_username\<close>, with the user endpoint as a function from the identifier asked to
  the reply. The bare \<^verbatim>\<open>except\<close> catches whatever the \<^verbatim>\<open>try\<close> block raises, so the
  function has no error result.
\<close>

definition fetch_username :: "(cell \<Rightarrow> reply) \<Rightarrow> globals \<Rightarrow> cell \<Rightarrow> globals" where
  "fetch_username http st user_id =
     (if isna user_id \<or> user_cache st user_id \<noteq> None then st
      else (let st = st\<lparr>trace := trace st @ [GetUser user_id]\<rparr> in
            case try_lookup (http user_id) of
              Inr name \<Rightarrow> st\<lparr>user_cache := (user_cache st)(user_id \<mapsto> name)\<rparr>
            | Inl e \<Rightarrow> st\<lparr>user_cache := (user_cache st)(user_id \<mapsto> user_id)\<rparr>))"

definition fetch_country_name :: "(cell \<Rightarrow> reply) \<Rightarrow> globals \<Rightarrow> cell \<Rightarrow> globals" where
  "fetch_country_name http st country_id =
     (if isna country_id \<or> country_cache st country_id \<noteq> None then st
      else (let st = st\<lparr>trace := trace st @ [GetCountry country_id]\<rparr> in
            case try_lookup (http country_id) of
              Inr name \<Rightarrow> st\<lparr>country_cache := (country_cache st)(country_id \<mapsto> name)\<rparr>
            | Inl e \<Rightarrow> st\<lparr>country_cache := (country_cache st)(country_id \<mapsto> country_id)\<rparr>))"

section \<open>Part 3: processing and exporting\<close>

text \<open>The number \<^verbatim>\<open>pd.to_numeric\<close> reads in a cell: an integer, kept exact, or a float.\<close>

datatype number = Integer int | Floating float64

text \<open>
  The library functions \<^verbatim>\<open>clean_and_export\<close> calls, which this repository does not define,
  are parameters:
  \<^item> \<open>py_float\<close>: Python's \<^verbatim>\<open>float(s)\<close> on a string, \<open>None\<close> when it raises;
  \<^item> \<open>to_numeric_str\<close>: the number \<^verbatim>\<open>pd.to_numeric\<close> reads in a string, \<open>None\<close> when
    it cannot parse it;
  \<^item> \<open>round64\<close>: the rounding of an exact number to a 64-bit float, which is both the
    conversion of an integer to \<^verbatim>\<open>float64\<close> and the rounding of a quotient;
  \<^item> \<open>to_datetime_strftime\<close>: what \<^verbatim>\<open>pd.to_datetime(s).dt.strftime('%d/%m/%Y %H:%M')\<close>
    makes of a cell of the column, or the error it raises on it.
\<close>

record lib =
  py_float :: "string \<Rightarrow> float64 option"
  to_numeric_str :: "string \<Rightarrow> number option"
  round64 :: "rat \<Rightarrow> float64"
  to_datetime_strftime :: "cell \<Rightarrow> error + cell"

text \<open>A fallible function over a column: the first cell that raises ends it.\<close>

fun traverse :: "('a \<Rightarrow> error + 'b) \<Rightarrow> 'a list \<Rightarrow> error + 'b list" where
  "traverse f [] = Inr []"
| "traverse f (x # xs) = bind_err (f x) (\<lambda>y. bind_err (traverse f xs) (\<lambda>ys. Inr (y # ys)))"

fun negative :: "float64 \<Rightarrow> bool" where
  "negative NInf = True"
| "negative NegZero = True"
| "negative (Fin x) = (x < 0)"
| "negative _ = False"

fun is_zero :: "float64 \<Rightarrow> bool" where
  "is_zero NegZero = True"
| "is_zero (Fin x) = (x = 0)"
| "is_zero _ = False"

fun is_inf :: "float64 \<Rightarrow> bool" where
  "is_inf PInf = True"
| "is_inf NInf = True"
| "is_inf _ = False"

fun magnitude :: "float64 \<Rightarrow> rat" where
  "magnitude (Fin x) = \<bar>x\<bar>"
| "magnitude _ = 0"

text \<open>
  \<^verbatim>\<open>s.astype(float)\<close>: \<^verbatim>\<open>None\<close> becomes NaN, an integer is converted to the nearest float
  (Python raises \<^verbatim>\<open>OverflowError\<close> on an integer beyond the floats), a string that is no
  number raises \<^verbatim>\<open>ValueError\<close>.
\<close>

fun float_of :: "lib \<Rightarrow> cell \<Rightarrow> error + float64" where
  "float_of l CNone = Inr NaN"
| "float_of l (CInt n) =
     (if is_inf (round64 l (of_int n)) then Inl OverflowError else Inr (round64 l (of_int n)))"
| "float_of l (CFloat x) = Inr x"
| "float_of l (CStr s) = (case py_float l s of None \<Rightarrow> Inl ValueError | Some x \<Rightarrow> Inr x)"

definition astype_float :: "lib \<Rightarrow> series \<Rightarrow> error + series" where
  "astype_float l s = bind_err (traverse (float_of l) s) (\<lambda>xs. Inr (map CFloat xs))"

text \<open>
  \<^verbatim>\<open>pd.to_numeric(s, errors='coerce')\<close>. Every cell is read as a number; \<^verbatim>\<open>None\<close> and what
  does not parse are NaN. When every cell is an integer the column is an integer column
  and keeps them exact; otherwise it is a \<^verbatim>\<open>float64\<close> column and the integers in it are
  converted. (The integers are those of the \<^verbatim>\<open>int64\<close> range, which is all such a column
  holds.)
\<close>

fun numeric_of :: "lib \<Rightarrow> cell \<Rightarrow> number" where
  "numeric_of l CNone = Floating NaN"
| "numeric_of l (CInt n) = Integer n"
| "numeric_of l (CFloat x) = Floating x"
| "numeric_of l (CStr s) = (case to_numeric_str l s of None \<Rightarrow> Floating NaN | Some v \<Rightarrow> v)"

fun is_integer :: "number \<Rightarrow> bool" where
  "is_integer (Integer n) = True"
| "is_integer (Floating x) = False"

fun cell_of :: "number \<Rightarrow> cell" where
  "cell_of (Integer n) = CInt n"
| "cell_of (Floating x) = CFloat x"

fun to_float64 :: "lib \<Rightarrow> number \<Rightarrow> float64" where
  "to_float64 l (Integer n) = round64 l (of_int n)"
| "to_float64 l (Floating x) = x"

definition to_numeric :: "lib \<Rightarrow> series \<Rightarrow> series" where
  "to_numeric l s =
     (let ns = map (numeric_of l) s in
      if list_all is_integer ns then map cell_of ns else map (\<lambda>v. CFloat (to_float64 l v)) ns)"

text \<open>\<^verbatim>\<open>s.map(cache)\<close> with a dict: a value that is no key of the dict becomes NaN.\<close>

definition series_map :: "(cell \<rightharpoonup> cell) \<Rightarrow> series \<Rightarrow> series" where
  "series_map cache s = map (\<lambda>v. case cache v of Some name \<Rightarrow> name | None \<Rightarrow> CFloat NaN) s"

text \<open>
  Float division as numpy does it (no exception): NaN when an operand is NaN, for
  \<open>inf / inf\<close> and for \<open>0 / 0\<close>; a signed infinity when a nonzero number is divided by zero;
  the rounded quotient of two nonzero finite numbers.
\<close>

definition fdiv :: "(rat \<Rightarrow> float64) \<Rightarrow> float64 \<Rightarrow> float64 \<Rightarrow> float64" where
  "fdiv rnd x y =
     (if x = NaN \<or> y = NaN then NaN
      else if is_inf x \<and> is_inf y then NaN
      else if is_zero x \<and> is_zero y then NaN
      else if is_inf x \<or> is_zero y then (if negative x \<noteq> negative y then NInf else PInf)
      else if is_zero x \<or> is_inf y then (if negative x \<noteq> negative y then NegZero else Fin 0)
      else rnd ((if negative x \<noteq> negative y then - 1 else 1) * (magnitude x / magnitude y)))"

text \<open>
  \<^verbatim>\<open>a / b\<close> on two numeric columns of one frame, cell by cell. Both operands are taken as
  \<^verbatim>\<open>float64\<close>: an integer is converted before the division. A cell that is no number
  raises.
\<close>

fun as_float :: "lib \<Rightarrow> cell \<Rightarrow> float64 option" where
  "as_float l (CInt n) = Some (round64 l (of_int n))"
| "as_float l (CFloat x) = Some x"
| "as_float l _ = None"

definition truediv_cell :: "lib \<Rightarrow> cell \<Rightarrow> cell \<Rightarrow> error + cell" where
  "truediv_cell l a b =
     (case (as_float l a, as_float l b) of
        (Some x, Some y) \<Rightarrow> Inr (CFloat (fdiv (round64 l) x y))
      | _ \<Rightarrow> Inl TypeError)"

definition truediv :: "lib \<Rightarrow> series \<Rightarrow> series \<Rightarrow> error + series" where
  "truediv l a b = traverse (\<lambda>(x, y). truediv_cell l x y) (zip a b)"

definition format_dates :: "lib \<Rightarrow> series \<Rightarrow> error + series" where
  "format_dates l s = traverse (to_datetime_strftime l) s"

text \<open>
  The eight assignments \<^verbatim>\<open>df[...] = ...\<close> of \<^verbatim>\<open>clean_and_export\<close> (lines 72 to 83), in
  order. Each reads the frame as the assignments before it left it; when its right-hand
  side raises, nothing is assigned. The two caches are globals, read from the state \<open>st\<close>.
\<close>

definition assignments :: "lib \<Rightarrow> globals \<Rightarrow> (dataframe \<Rightarrow> error + dataframe) list" where
  "assignments l st =
     [\<lambda>df. bind_err (getitem df ''money'') (\<lambda>money.
            bind_err (astype_float l money) (\<lambda>money.
            Inr (setitem df ''money'' money))),
      \<lambda>df. bind_err (getitem df ''quantity'') (\<lambda>quantity.
            Inr (setitem df ''quantity'' (to_numeric l quantity))),
      \<lambda>df. bind_err (getitem df ''sellerId'') (\<lambda>sellerId.
            Inr (setitem df ''sellerId'' (series_map (user_cache st) sellerId))),
      \<lambda>df. bind_err (getitem df ''buyerId'') (\<lambda>buyerId.
            Inr (setitem df ''buyerId'' (series_map (user_cache st) buyerId))),
      \<lambda>df. bind_err (getitem df ''sellerCountryId'') (\<lambda>sellerCountryId.
            Inr (setitem df ''sellerCountryId'' (series_map (country_cache st) sellerCountryId))),
      \<lambda>df. bind_err (getitem df ''buyerCountryId'') (\<lambda>buyerCountryId.
            Inr (setitem df ''buyerCountryId'' (series_map (country_cache st) buyerCountryId))),
      \<lambda>df. bind_err (getitem df ''money'') (\<lambda>money.
            bind_err (getitem df ''quantity'') (\<lambda>quantity.
            bind_err (truediv l money quantity) (\<lambda>moneyPerUnit.
            Inr (setitem df ''moneyPerUnit'' moneyPerUnit)))),
      \<lambda>df. bind_err (getitem df ''updatedAt'') (\<lambda>updatedAt.
            bind_err (format_dates l updatedAt) (\<lambda>updatedAt.
            Inr (setitem df ''updatedAt'' updatedAt)))]"

text \<open>
  Statements run one after the other on the caller's frame. The first that raises ends
  the function, and the frame stays as the statements before it left it.
\<close>

fun run :: "(dataframe \<Rightarrow> error + dataframe) list \<Rightarrow> dataframe \<Rightarrow> dataframe \<times> error option" where
  "run [] df = (df, None)"
| "run (s # ss) df = (case s df of Inl e \<Rightarrow> (df, Some e) | Inr df' \<Rightarrow> run ss df')"

text \<open>The selection and renaming of lines 86 to 95: a new frame, \<^verbatim>\<open>final_df\<close>.\<close>

definition select_and_rename :: "dataframe \<Rightarrow> error + dataframe" where
  "select_and_rename df =
     bind_err (getitems df [''sellerCountryId'', ''sellerId'', ''itemCode'', ''quantity'',
                            ''moneyPerUnit'', ''buyerCountryId'', ''buyerId'', ''money'', ''updatedAt''])
       (\<lambda>selected.
     Inr (rename [(''sellerCountryId'', ''sellerCountry''), (''sellerId'', ''sellBy''),
                  (''buyerCountryId'', ''buyerCountry''), (''buyerId'', ''buyerBy''),
                  (''money'', ''totalMoney'')] selected))"

text \<open>
  \<^verbatim>\<open>clean_and_export(df)\<close>. The frame is the caller's object and every assignment writes
  into it, so the function gives back the frame as it leaves it, whether it returns or
  raises, together with the error raised or the two files written (both hold
  \<^verbatim>\<open>final_df\<close>).
\<close>

definition clean_and_export :: "lib \<Rightarrow> globals \<Rightarrow> dataframe \<Rightarrow> dataframe \<times> (error + event list)" where
  "clean_and_export l st df =
     (case run (assignments l st) df of
        (df, Some e) \<Rightarrow> (df, Inl e)
      | (df, None) \<Rightarrow>
          (case select_and_rename df of
             Inl e \<Rightarrow> (df, Inl e)
           | Inr final_df \<Rightarrow> (df, Inr [ToCsv final_df, ToExcel final_df])))"

section \<open>The main pipeline\<close>

text \<open>
  \<^verbatim>\<open>pd.unique(df[[a, b]].values.ravel('K'))\<close>: the distinct values of the two columns,
  \<^verbatim>\<open>KeyError\<close> when one of them is no column of the frame.
\<close>

definition unique_values :: "dataframe \<Rightarrow> string list \<Rightarrow> error + cell list" where
  "unique_values df names = bind_err (getitems df names) (\<lambda>sel. Inr (unique (concat (map snd (cols sel)))))"

text \<open>
  The \<^verbatim>\<open>__main__\<close> block. The worker pool runs the lookups of distinct identifiers, which
  write distinct keys; they are taken here one after the other. An exception that escapes
  ends the process with the events so far.
\<close>

definition main ::
  "lib \<Rightarrow> response list \<Rightarrow> (cell \<Rightarrow> reply) \<Rightarrow> (cell \<Rightarrow> reply) \<Rightarrow> (event list \<times> (error + unit)) option"
where
  "main l responses users countries =
     (case fetch_transactions responses of
        None \<Rightarrow> None
      | Some (tr, Inl e) \<Rightarrow> Some (tr, Inl e)
      | Some (tr, Inr df) \<Rightarrow>
          Some (let st = \<lparr>frame = df, user_cache = Map.empty, country_cache = Map.empty, trace = tr\<rparr> in
                case unique_values (frame st) [''sellerId'', ''buyerId''] of
                  Inl e \<Rightarrow> (tr, Inl e)
                | Inr user_ids \<Rightarrow>
                    (case unique_values (frame st) [''sellerCountryId'', ''buyerCountryId''] of
                       Inl e \<Rightarrow> (tr, Inl e)
                     | Inr country_ids \<Rightarrow>
                         (let st = foldl (fetch_username users) st user_ids;
                              st = foldl (fetch_country_name countries) st country_ids
                          in case getitems (frame st) [''money'', ''quantity''] of
                               Inl e \<Rightarrow> (trace st, Inl e)
                             | Inr shown \<Rightarrow>
                                 (case clean_and_export l st (frame st) of
                                    (df', Inl e) \<Rightarrow> (trace st, Inl e)
                                  | (df', Inr written) \<Rightarrow> (trace st @ written, Inr ()))))))"

section \<open>The cleanup script\<close>

text \<open>
  \<^verbatim>\<open>test2.py\<close> reads the delimited file back and writes it again. A delimited file is taken
  as the fields it holds: whether it starts with a byte-order mark, the header and the
  data rows (the quoting of a field is left to the reader and the writer).
\<close>

record csv =
  bom :: bool
  header :: "string list"
  data_rows :: "string list list"

text \<open>
  The text functions of Python and pandas that the writer and the reader use, which this
  repository does not define, are parameters:
  \<^item> \<open>format_float\<close>: the text of a float, under the \<^verbatim>\<open>float_format\<close> given or, without
    one, as Python's \<^verbatim>\<open>repr\<close> writes it;
  \<^item> \<open>str_int\<close>: the decimal text of an integer;
  \<^item> \<open>na_value\<close>: whether the reader takes a field for a missing value;
  \<^item> \<open>read_int\<close> and \<open>read_float\<close>: the integer and the float the reader sees in a
    field, \<open>None\<close> when it sees none.
\<close>

record text_lib =
  format_float :: "string option \<Rightarrow> float64 \<Rightarrow> string"
  str_int :: "int \<Rightarrow> string"
  na_value :: "string \<Rightarrow> bool"
  read_int :: "string \<Rightarrow> int option"
  read_float :: "string \<Rightarrow> float64 option"

text \<open>
  \<^verbatim>\<open>df.to_csv(file, index=False, float_format=...)\<close>: no byte-order mark, the column names,
  and one row of fields per row of the frame. A missing value is the empty field; the
  \<^verbatim>\<open>float_format\<close> applies to the floats only.
\<close>

fun csv_field :: "text_lib \<Rightarrow> string option \<Rightarrow> cell \<Rightarrow> string" where
  "csv_field io float_format CNone = []"
| "csv_field io float_format (CInt n) = str_int io n"
| "csv_field io float_format (CFloat x) = (if x = NaN then [] else format_float io float_format x)"
| "csv_field io float_format (CStr s) = s"

definition to_csv :: "text_lib \<Rightarrow> string option \<Rightarrow> dataframe \<Rightarrow> csv" where
  "to_csv io float_format df =
     \<lparr> bom = False,
       header = columns df,
       data_rows = map (\<lambda>i. map (\<lambda>(k, s). csv_field io float_format (s ! i)) (cols df)) [0..<nrows df] \<rparr>"

text \<open>
  \<^verbatim>\<open>pd.read_csv(file, encoding="utf-8-sig")\<close>: the byte-order mark, if there is one, is
  dropped. A column is read as a whole: as integers when every field is one, as floats
  when every field is a number or a missing value, and as strings otherwise, where a
  missing value is NaN. A row that is short of fields is missing in the columns it lacks.
\<close>

definition field_at :: "string list \<Rightarrow> nat \<Rightarrow> string" where
  "field_at r j = (if j < length r then r ! j else [])"

definition is_int_field :: "text_lib \<Rightarrow> string \<Rightarrow> bool" where
  "is_int_field io f = (\<not> na_value io f \<and> read_int io f \<noteq> None)"

definition is_number_field :: "text_lib \<Rightarrow> string \<Rightarrow> bool" where
  "is_number_field io f = (na_value io f \<or> read_float io f \<noteq> None)"

definition int_cell :: "text_lib \<Rightarrow> string \<Rightarrow> cell" where
  "int_cell io f = (case read_int io f of Some n \<Rightarrow> CInt n | None \<Rightarrow> CStr f)"

definition float_cell :: "text_lib \<Rightarrow> string \<Rightarrow> cell" where
  "float_cell io f =
     (if na_value io f then CFloat NaN else case read_float io f of Some x \<Rightarrow> CFloat x | None \<Rightarrow> CStr f)"

definition object_cell :: "text_lib \<Rightarrow> string \<Rightarrow> cell" where
  "object_cell io f = (if na_value io f then CFloat NaN else CStr f)"

definition read_column :: "text_lib \<Rightarrow> string list \<Rightarrow> series" where
  "read_column io column =
     (if list_all (is_int_field io) column then map (int_cell io) column
      else if list_all (is_number_field io) column then map (float_cell io) column
      else map (object_cell io) column)"

definition read_csv :: "text_lib \<Rightarrow> csv \<Rightarrow> dataframe" where
  "read_csv io file =
     \<lparr> nrows = length (data_rows file),
       cols = map (\<lambda>j. (header file ! j, read_column io (map (\<lambda>r. field_at r j) (data_rows file))))
                  [0..<length (header file)] \<rparr>"

text \<open>The first half of \<^verbatim>\<open>test2.py\<close> (lines 4 to 6): the file is read and written again.\<close>

definition cleanup_csv :: "text_lib \<Rightarrow> csv \<Rightarrow> csv" where
  "cleanup_csv io file = to_csv io None (read_csv io file)"

text \<open>
  The delimited file \<^verbatim>\<open>clean_and_export\<close> writes for the frame of its \<open>ToCsv\<close> event
  (line 97): floats with four decimals.
\<close>

definition exported_csv :: "text_lib \<Rightarrow> dataframe \<Rightarrow> csv" where
  "exported_csv io final_df = to_csv io (Some ''%.4f'') final_df"

section \<open>Notions used by the properties\<close>

text \<open>A page after which the loop asks for the next one: status 200 and a cursor that is
  true in Python.\<close>

definition continues :: "response \<Rightarrow> bool" where
  "continues r = (status_code r = 200 \<and> (case body r of Page items next \<Rightarrow> truthy next | _ \<Rightarrow> False))"

text \<open>The items of a page (none when the body has none).\<close>

definition page_items :: "response \<Rightarrow> item list" where
  "page_items r = (case body r of Page items next \<Rightarrow> items | _ \<Rightarrow> [])"

text \<open>The requests to the transaction endpoint among the events.\<close>

fun is_request :: "event \<Rightarrow> bool" where
  "is_request (GetTransactions c) = True"
| "is_request _ = False"

text \<open>The events of \<^verbatim>\<open>fetch_transactions\<close>: its requests and its pauses.\<close>

fun is_fetch_event :: "event \<Rightarrow> bool" where
  "is_fetch_event (GetTransactions c) = True"
| "is_fetch_event Sleep = True"
| "is_fetch_event _ = False"

text \<open>
  The count as the specification words it: the items of the pages before the first page
  that fails (a status outside 2xx) or carries no next cursor.
\<close>

definition spec_stops :: "response \<Rightarrow> bool" where
  "spec_stops r =
     (\<not> (200 \<le> status_code r \<and> status_code r < 300)
      \<or> (case body r of Page items next \<Rightarrow> \<not> truthy next | _ \<Rightarrow> True))"

definition spec_item_count :: "response list \<Rightarrow> nat" where
  "spec_item_count rs = sum_list (map (\<lambda>r. length (page_items r)) (takeWhile (\<lambda>r. \<not> spec_stops r) rs))"

text \<open>A transaction as the endpoint sends it, with the given quantity and money.\<close>

definition example_item :: "cell \<Rightarrow> cell \<Rightarrow> item" where
  "example_item q m =
     [(''sellerId'', CStr ''A''), (''buyerId'', CStr ''B''),
      (''sellerCountryId'', CStr ''X''), (''buyerCountryId'', CStr ''Y''),
      (''itemCode'', CStr ''bread''), (''quantity'', q), (''money'', m),
      (''updatedAt'', CStr ''2025-06-01T12:30:00.000Z'')]"

text \<open>A lookup endpoint that knows one user and fails on every other identifier.\<close>

definition example_http :: "cell \<Rightarrow> reply" where
  "example_http i = (if i = CStr ''A'' then Field (CStr ''alice'') else RequestFailed)"

text \<open>
  The frame \<^verbatim>\<open>clean_and_export\<close> leaves behind and the frame it writes, in terms of the
  columns it read: \<open>ms\<close> are the money values as floats, \<open>dates\<close> the formatted
  timestamps, the other arguments the columns of the frame it was given. A row of
  moneyPerUnit is the float division of the money by the quantity as a float.
\<close>

definition moneyPerUnit :: "lib \<Rightarrow> float64 list \<Rightarrow> series \<Rightarrow> series" where
  "moneyPerUnit l ms quantity =
     map (\<lambda>(m, q). CFloat (fdiv (round64 l) m (to_float64 l (numeric_of l q)))) (zip ms quantity)"

definition frame_after ::
  "lib \<Rightarrow> globals \<Rightarrow> dataframe \<Rightarrow> float64 list \<Rightarrow> series \<Rightarrow> series \<Rightarrow> series \<Rightarrow> series \<Rightarrow> series \<Rightarrow> series
     \<Rightarrow> dataframe"
where
  "frame_after l st df ms quantity sellerId buyerId sellerCountryId buyerCountryId dates =
     setitem (setitem (setitem (setitem (setitem (setitem (setitem (setitem df
       ''money'' (map CFloat ms))
       ''quantity'' (to_numeric l quantity))
       ''sellerId'' (series_map (user_cache st) sellerId))
       ''buyerId'' (series_map (user_cache st) buyerId))
       ''sellerCountryId'' (series_map (country_cache st) sellerCountryId))
       ''buyerCountryId'' (series_map (country_cache st) buyerCountryId))
       ''moneyPerUnit'' (moneyPerUnit l ms quantity))
       ''updatedAt'' dates"

definition final_df ::
  "lib \<Rightarrow> globals \<Rightarrow> dataframe \<Rightarrow> float64 list \<Rightarrow> series \<Rightarrow> series \<Rightarrow> series \<Rightarrow> series \<Rightarrow> series \<Rightarrow> series
     \<Rightarrow> series \<Rightarrow> dataframe"
where
  "final_df l st df ms quantity sellerId buyerId sellerCountryId buyerCountryId itemCode dates =
     \<lparr> nrows = nrows df,
       cols = [(''sellerCountry'', series_map (country_cache st) sellerCountryId),
               (''sellBy'', series_map (user_cache st) sellerId),
               (''itemCode'', itemCode),
               (''quantity'', to_numeric l quantity),
               (''moneyPerUnit'', moneyPerUnit l ms quantity),
               (''buyerCountry'', series_map (country_cache st) buyerCountryId),
               (''buyerBy'', series_map (user_cache st) buyerId),
               (''totalMoney'', map CFloat ms),
               (''updatedAt'', dates)] \<rparr>"

text \<open>
  A column obtained from another by looking every cell up in a cache: the cached name
  where there is one, NaN where there is none.
\<close>

definition looked_up :: "(cell \<rightharpoonup> cell) \<Rightarrow> series \<Rightarrow> series \<Rightarrow> bool" where
  "looked_up cache old new \<longleftrightarrow>
     length new = length old \<and>
     (\<forall>i < length old. case cache (old ! i) of
                          None \<Rightarrow> new ! i = CFloat NaN
                        | Some name \<Rightarrow> new ! i = name)"

text \<open>The columns \<^verbatim>\<open>clean_and_export\<close> assigns to.\<close>

definition assigned_columns :: "string list" where
  "assigned_columns = [''money'', ''quantity'', ''sellerId'', ''buyerId'', ''sellerCountryId'',
                       ''buyerCountryId'', ''moneyPerUnit'', ''updatedAt'']"

text \<open>The nine columns of the export, in order.\<close>

definition export_columns :: "string list" where
  "export_columns = [''sellerCountry'', ''sellBy'', ''itemCode'', ''quantity'', ''moneyPerUnit'',
                     ''buyerCountry'', ''buyerBy'', ''totalMoney'', ''updatedAt'']"

text \<open>
  The integers an integer column of pandas holds are those of 64 bits; a cell of the
  quantity column is in range when the integer read in it, if it is one, has 64 bits.
\<close>

definition int64 :: "int \<Rightarrow> bool" where
  "int64 n \<longleftrightarrow> - (2 ^ 63) \<le> n \<and> n < 2 ^ 63"

definition int64_cell :: "lib \<Rightarrow> cell \<Rightarrow> bool" where
  "int64_cell l c = (case numeric_of l c of Integer n \<Rightarrow> int64 n | Floating x \<Rightarrow> True)"

text \<open>
  What holds of the frame \<open>df'\<close> that the assignments of \<^verbatim>\<open>clean_and_export\<close> make of a
  frame \<open>df\<close>, however far they get: the rows are as many, a frame with one cell per row
  in every column stays so, the columns that are not assigned to are untouched, and the
  columns are the same in the same order, but for moneyPerUnit added at the end when it
  was not there.
\<close>

definition kept :: "dataframe \<Rightarrow> dataframe \<Rightarrow> bool" where
  "kept df df' \<longleftrightarrow>
     nrows df' = nrows df
     \<and> (wf_frame df \<longrightarrow> wf_frame df')
     \<and> (\<forall>c. c \<notin> set assigned_columns \<longrightarrow> getitem df' c = getitem df c)
     \<and> (columns df' = columns df
        \<or> ''moneyPerUnit'' \<notin> set (columns df) \<and> columns df' = columns df @ [''moneyPerUnit''])"

text \<open>
  A small library for the examples: it parses the few numbers the examples use, rounds
  nothing, and formats the one timestamp of \<open>example_item\<close>.
\<close>

definition example_lib :: lib where
  "example_lib =
     \<lparr> py_float = (\<lambda>s. if s = ''100.0'' then Some (Fin 100) else if s = ''50.0'' then Some (Fin 50) else None),
       to_numeric_str = (\<lambda>s. if s = ''4'' then Some (Integer 4) else if s = ''0'' then Some (Integer 0) else None),
       round64 = Fin,
       to_datetime_strftime =
         (\<lambda>c. if c = CStr ''2025-06-01T12:30:00.000Z'' then Inr (CStr ''01/06/2025 12:30'')
               else Inl ValueError) \<rparr>"

text \<open>
  Two transactions: 100.0 for 4 units and 50.0 for 0 units. Then three whose quantities
  are 4, a string that is no number and \<^verbatim>\<open>None\<close>; one with a column more; one whose money
  is no number; and one whose timestamp is no date.
\<close>

definition example_df :: dataframe where
  "example_df = DataFrame [example_item (CInt 4) (CFloat (Fin 100)), example_item (CInt 0) (CFloat (Fin 50))]"

definition mixed_df :: dataframe where
  "mixed_df = DataFrame [example_item (CInt 4) (CFloat (Fin 100)), example_item (CStr ''many'') (CStr ''50.0''),
                         example_item CNone (CInt 7)]"

definition extra_df :: dataframe where
  "extra_df = DataFrame [(''_id'', CStr ''t1'') # example_item (CStr ''4'') (CStr ''100.0'')]"


definition bad_date_df :: dataframe where
  "bad_date_df = DataFrame [(example_item (CInt 4) (CFloat (Fin 100)))[7 := (''updatedAt'', CStr ''soon'')]]"

text \<open>
  The state in which \<^verbatim>\<open>__main__\<close> starts the resolution, and one with caches that know
  the seller and the seller's country, not the buyer's.
\<close>

definition empty_resolver :: globals where
  "empty_resolver = \<lparr>frame = example_df, user_cache = Map.empty, country_cache = Map.empty, trace = []\<rparr>"

definition example_caches :: globals where
  "example_caches =
     \<lparr> frame = example_df,
       user_cache = [CStr ''A'' \<mapsto> CStr ''alice''],
       country_cache = [CStr ''X'' \<mapsto> CStr ''Chile''],
       trace = [] \<rparr>"

text \<open>
  What \<^verbatim>\<open>clean_and_export\<close> makes of \<open>example_df\<close> with \<open>example_lib\<close> and
  \<open>example_caches\<close>: the frame it leaves and the frame it writes.
\<close>

definition example_after :: dataframe where
  "example_after =
     \<lparr> nrows = 2,
       cols = [(''sellerId'', [CStr ''alice'', CStr ''alice'']),
               (''buyerId'', [CFloat NaN, CFloat NaN]),
               (''sellerCountryId'', [CStr ''Chile'', CStr ''Chile'']),
               (''buyerCountryId'', [CFloat NaN, CFloat NaN]),
               (''itemCode'', [CStr ''bread'', CStr ''bread'']),
               (''quantity'', [CInt 4, CInt 0]),
               (''money'', [CFloat (Fin 100), CFloat (Fin 50)]),
               (''updatedAt'', [CStr ''01/06/2025 12:30'', CStr ''01/06/2025 12:30'']),
               (''moneyPerUnit'', [CFloat (Fin 25), CFloat PInf])] \<rparr>"

definition example_final :: dataframe where
  "example_final =
     \<lparr> nrows = 2,
       cols = [(''sellerCountry'', [CStr ''Chile'', CStr ''Chile'']),
               (''sellBy'', [CStr ''alice'', CStr ''alice'']),
               (''itemCode'', [CStr ''bread'', CStr ''bread'']),
               (''quantity'', [CInt 4, CInt 0]),
               (''moneyPerUnit'', [CFloat (Fin 25), CFloat PInf]),
               (''buyerCountry'', [CFloat NaN, CFloat NaN]),
               (''buyerBy'', [CFloat NaN, CFloat NaN]),
               (''totalMoney'', [CFloat (Fin 100), CFloat (Fin 50)]),
               (''updatedAt'', [CStr ''01/06/2025 12:30'', CStr ''01/06/2025 12:30''])] \<rparr>"

text \<open>
  What it makes of \<open>bad_date_df\<close>, whose timestamp does not format: the frame as the
  first seven assignments leave it.
\<close>

definition bad_date_after :: dataframe where
  "bad_date_after =
     \<lparr> nrows = 1,
       cols = [(''sellerId'', [CStr ''alice'']),
               (''buyerId'', [CFloat NaN]),
               (''sellerCountryId'', [CStr ''Chile'']),
               (''buyerCountryId'', [CFloat NaN]),
               (''itemCode'', [CStr ''bread'']),
               (''quantity'', [CInt 4]),
               (''money'', [CFloat (Fin 100)]),
               (''updatedAt'', [CStr ''soon'']),
               (''moneyPerUnit'', [CFloat (Fin 25)])] \<rparr>"

text \<open>
  A value is printed readably when the reader sees it again in the text the writer gives
  it: an integer in its decimal text, a float other than NaN in the text of its
  \<^verbatim>\<open>repr\<close>, which is no missing value and no integer. The empty field is a missing
  value.
\<close>

fun printable_cell :: "text_lib \<Rightarrow> cell \<Rightarrow> bool" where
  "printable_cell io (CInt n) = (\<not> na_value io (str_int io n) \<and> read_int io (str_int io n) = Some n)"
| "printable_cell io (CFloat x) =
     (x = NaN \<or> (\<not> na_value io (format_float io None x) \<and> read_float io (format_float io None x) = Some x
                 \<and> read_int io (format_float io None x) = None))"
| "printable_cell io _ = True"

definition printable :: "text_lib \<Rightarrow> dataframe \<Rightarrow> bool" where
  "printable io df = (na_value io [] \<and> list_all (\<lambda>(k, s). list_all (printable_cell io) s) (cols df))"

text \<open>The texts of the numbers of the examples.\<close>

definition example_io :: text_lib where
  "example_io =
     \<lparr> format_float = (\<lambda>float_format x.
         if x = PInf then ''inf''
         else if x = Fin 25 then (if float_format = Some ''%.4f'' then ''25.0000'' else ''25.0'')
         else if x = Fin 50 then (if float_format = Some ''%.4f'' then ''50.0000'' else ''50.0'')
         else if x = Fin 100 then (if float_format = Some ''%.4f'' then ''100.0000'' else ''100.0'')
         else ''?''),
       str_int = (\<lambda>n. if n = 4 then ''4'' else if n = 0 then ''0'' else ''?''),
       na_value = (\<lambda>f. f = []),
       read_int = (\<lambda>f. if f = ''4'' then Some 4 else if f = ''0'' then Some 0 else None),
       read_float = (\<lambda>f.
         if f = ''inf'' then Some PInf
         else if f = ''25.0000'' \<or> f = ''25.0'' then Some (Fin 25)
         else if f = ''50.0000'' \<or> f = ''50.0'' then Some (Fin 50)
         else if f = ''100.0000'' \<or> f = ''100.0'' then Some (Fin 100)
         else if f = ''4'' then Some (Fin 4)
         else if f = ''0'' then Some (Fin 0)
         else None) \<rparr>"

text \<open>
  The delimited file written for the two example transactions, and the file the cleanup
  makes of it.
\<close>

definition example_csv :: csv where
  "example_csv =
     \<lparr> bom = False,
       header = [''sellerCountry'', ''sellBy'', ''itemCode'', ''quantity'', ''moneyPerUnit'',
                 ''buyerCountry'', ''buyerBy'', ''totalMoney'', ''updatedAt''],
       data_rows = [[''Chile'', ''alice'', ''bread'', ''4'', ''25.0000'', [], [], ''100.0000'', ''01/06/2025 12:30''],
                    [''Chile'', ''alice'', ''bread'', ''0'', ''inf'', [], [], ''50.0000'', ''01/06/2025 12:30'']] \<rparr>"

definition example_csv_clean :: csv where
  "example_csv_clean =
     \<lparr> bom = False,
       header = [''sellerCountry'', ''sellBy'', ''itemCode'', ''quantity'', ''moneyPerUnit'',
                 ''buyerCountry'', ''buyerBy'', ''totalMoney'', ''updatedAt''],
       data_rows = [[''Chile'', ''alice'', ''bread'', ''4'', ''25.0'', [], [], ''100.0'', ''01/06/2025 12:30''],
                    [''Chile'', ''alice'', ''bread'', ''0'', ''inf'', [], [], ''50.0'', ''01/06/2025 12:30'']] \<rparr>"

section \<open>Properties\<close>

subsection \<open>The transaction fetcher\<close>

text \<open>
  While the pages continue, the loop appends their items, makes one request per page and
  produces only events of its own.
\<close>

lemma fetch_loop_continues:
  assumes "\<forall>p \<in> set pre. continues p"
  shows "\<exists>c' tr'. fetch_loop acc c tr (pre @ rest) = fetch_loop (acc @ concat (map page_items pre)) c' tr' rest
           \<and> length (filter is_request tr') = length (filter is_request tr) + length pre
           \<and> (set tr' - set tr \<subseteq> Collect is_fetch_event)"
  using assms
proof (induction pre arbitrary: acc c tr)
  case Nil
  then show ?case by auto
next
  case (Cons p pre)
  from Cons.prems obtain items "next" where p: "status_code p = 200" "body p = Page items next" "truthy next"
    by (auto simp: continues_def split: body.splits)
  let ?tr = "tr @ [GetTransactions (if truthy c then c else CNone)] @ [Sleep]"
  from Cons.IH[of "acc @ items" "next" ?tr] Cons.prems
  obtain c' tr' where IH: "fetch_loop (acc @ items) next ?tr (pre @ rest) = fetch_loop ((acc @ items) @ concat (map page_items pre)) c' tr' rest"
     "length (filter is_request tr') = length (filter is_request ?tr) + length pre"
     "set tr' - set ?tr \<subseteq> Collect is_fetch_event"
    by auto
  have "fetch_loop acc c tr ((p # pre) @ rest) = fetch_loop (acc @ items) next ?tr (pre @ rest)"
    using p by (simp add: Let_def)
  moreover have "page_items p = items"
    using p by (simp add: page_items_def)
  ultimately show ?case
    using IH by (auto intro!: exI[of _ c'] exI[of _ tr'])
qed

lemma nrows_DataFrame: "nrows (DataFrame xs) = length xs"
  by (simp add: DataFrame_def)

text \<open>
  Claim C1, as amended. Let the responses be pages that continue, then a page \<open>r\<close> that
  stops the loop without raising: its status is not 200, or it is a page whose cursor is
  absent or false. Then \<^verbatim>\<open>fetch_transactions\<close> raises nothing and returns the frame of the
  items accumulated: those of the pages before \<open>r\<close>, in order, followed by the items of
  \<open>r\<close> when \<open>r\<close> is the page without a next cursor (the loop appends the items before it
  looks at the cursor), and by nothing when \<open>r\<close> is the failing page. So the number of
  rows is the sum of the item counts of the pages before \<open>r\<close>, plus that of \<open>r\<close> in the
  first case. No request follows the one answered by \<open>r\<close>.
\<close>

theorem fetch_transactions_count:
  assumes "\<forall>p \<in> set pre. continues p"
    and "status_code r \<noteq> 200 \<or> (\<exists>items next. body r = Page items next \<and> \<not> truthy next)"
  shows "\<exists>tr df. fetch_transactions (pre @ r # post) = Some (tr, Inr df)
           \<and> df = DataFrame (concat (map page_items pre) @ (if status_code r \<noteq> 200 then [] else page_items r))
           \<and> nrows df = sum_list (map (\<lambda>p. length (page_items p)) pre)
                         + (if status_code r \<noteq> 200 then 0 else length (page_items r))
           \<and> length (filter is_request tr) = length pre + 1"
proof -
  from fetch_loop_continues[OF assms(1), of "[]" CNone "[]" "r # post"]
  obtain c' tr' where run: "fetch_loop [] CNone [] (pre @ r # post) = fetch_loop (concat (map page_items pre)) c' tr' (r # post)"
    and n: "length (filter is_request tr') = length pre"
    by auto
  let ?tr = "tr' @ [GetTransactions (if truthy c' then c' else CNone)]"
  have "fetch_loop (concat (map page_items pre)) c' tr' (r # post)
          = Some (?tr, Inr (concat (map page_items pre) @ (if status_code r \<noteq> 200 then [] else page_items r)))"
    using assms(2) by (auto simp: Let_def page_items_def)
  with run have "fetch_transactions (pre @ r # post)
          = Some (?tr, Inr (DataFrame (concat (map page_items pre) @ (if status_code r \<noteq> 200 then [] else page_items r))))"
    by (simp add: fetch_transactions_def)
  moreover have "length (filter is_request ?tr) = length pre + 1"
    using n by simp
  moreover have "length (concat (map page_items pre)) = sum_list (map (\<lambda>p. length (page_items p)) pre)"
    by (simp add: length_concat comp_def)
  ultimately show ?thesis
    by (auto simp: nrows_DataFrame)
qed

text \<open>
  Witness for C1: one page with a cursor, then a status 500; the frame returned is that
  of the item of the first page.
\<close>

theorem fetch_transactions_count_witness:
  "\<exists>tr. fetch_transactions
       ([\<lparr>status_code = 200, body = Page [example_item (CInt 4) (CFloat (Fin 100))] (CStr ''c1'')\<rparr>]
        @ \<lparr>status_code = 500, body = NotJson\<rparr> # [])
       = Some (tr, Inr (DataFrame [example_item (CInt 4) (CFloat (Fin 100))]))
     \<and> nrows (DataFrame [example_item (CInt 4) (CFloat (Fin 100))]) = 1
     \<and> length (filter is_request tr) = 2"
  using fetch_transactions_count
    [of "[\<lparr>status_code = 200, body = Page [example_item (CInt 4) (CFloat (Fin 100))] (CStr ''c1'')\<rparr>]"
        "\<lparr>status_code = 500, body = NotJson\<rparr>" "[]"]
  by (simp add: continues_def page_items_def numeral_2_eq_2)

text \<open>
  Counterexample to C1 as stated: a single page of one item without a next cursor. The
  frame returned has one row, while the count that excludes the cursor-less page is 0.
\<close>

theorem fetch_transactions_count_counterexample:
  "map_option (map_sum id nrows \<circ> snd)
     (fetch_transactions [\<lparr>status_code = 200, body = Page [example_item (CInt 4) (CFloat (Fin 100))] CNone\<rparr>])
     = Some (Inr 1)
   \<and> spec_item_count [\<lparr>status_code = 200, body = Page [example_item (CInt 4) (CFloat (Fin 100))] CNone\<rparr>] = 0"
  by (simp add: fetch_transactions_def nrows_DataFrame spec_item_count_def spec_stops_def)

subsection \<open>The name resolver\<close>

text \<open>
  What a call does to the state: the cache of the other kind and the collection are as
  they were; the cache of its own kind gains the entry of the identifier, when the
  identifier is not missing and was not cached.
\<close>

lemma fetch_username_state:
  "user_cache (fetch_username http st i) =
     (if isna i \<or> user_cache st i \<noteq> None then user_cache st
      else (user_cache st)(i \<mapsto> (case http i of Field name \<Rightarrow> name | _ \<Rightarrow> i)))"
  "country_cache (fetch_username http st i) = country_cache st"
  "frame (fetch_username http st i) = frame st"
  by (cases "http i"; simp add: fetch_username_def Let_def)+

lemma fetch_country_name_state:
  "country_cache (fetch_country_name http st i) =
     (if isna i \<or> country_cache st i \<noteq> None then country_cache st
      else (country_cache st)(i \<mapsto> (case http i of Field name \<Rightarrow> name | _ \<Rightarrow> i)))"
  "user_cache (fetch_country_name http st i) = user_cache st"
  "frame (fetch_country_name http st i) = frame st"
  by (cases "http i"; simp add: fetch_country_name_def Let_def)+

text \<open>Over a list of identifiers, as the worker pool is given one.\<close>

lemma foldl_fetch_username_state:
  "country_cache (foldl (fetch_username http) st ids) = country_cache st"
  "frame (foldl (fetch_username http) st ids) = frame st"
  by (induction ids arbitrary: st; simp add: fetch_username_state)+

lemma foldl_fetch_country_name_state:
  "user_cache (foldl (fetch_country_name http) st ids) = user_cache st"
  "frame (foldl (fetch_country_name http) st ids) = frame st"
  by (induction ids arbitrary: st; simp add: fetch_country_name_state)+

lemma fetch_username_keeps:
  "user_cache st j = Some v \<Longrightarrow> user_cache (fetch_username http st a) j = Some v"
  by (cases "a = j") (simp_all add: fetch_username_state)

lemma fetch_country_name_keeps:
  "country_cache st j = Some v \<Longrightarrow> country_cache (fetch_country_name http st a) j = Some v"
  by (cases "a = j") (simp_all add: fetch_country_name_state)

lemma foldl_fetch_username_keeps:
  "user_cache st j = Some v \<Longrightarrow> user_cache (foldl (fetch_username http) st ids) j = Some v"
  by (induction ids arbitrary: st) (simp_all add: fetch_username_keeps)

lemma foldl_fetch_country_name_keeps:
  "country_cache st j = Some v \<Longrightarrow> country_cache (foldl (fetch_country_name http) st ids) j = Some v"
  by (induction ids arbitrary: st) (simp_all add: fetch_country_name_keeps)

lemma foldl_fetch_username_resolves:
  assumes "\<not> isna i" and "i \<in> set ids" and "user_cache st i = None"
  shows "user_cache (foldl (fetch_username http) st ids) i = Some (case http i of Field name \<Rightarrow> name | _ \<Rightarrow> i)"
  using assms(2,3)
proof (induction ids arbitrary: st)
  case Nil
  then show ?case by simp
next
  case (Cons a ids)
  show ?case
  proof (cases "a = i")
    case True
    with assms(1) Cons.prems(2)
    have "user_cache (fetch_username http st a) i = Some (case http i of Field name \<Rightarrow> name | _ \<Rightarrow> i)"
      by (simp add: fetch_username_state)
    then show ?thesis
      by (simp add: foldl_fetch_username_keeps)
  next
    case False
    with Cons.prems have "i \<in> set ids" and "user_cache (fetch_username http st a) i = None"
      by (auto simp: fetch_username_state)
    then show ?thesis
      using Cons.IH by simp
  qed
qed

lemma foldl_fetch_country_name_resolves:
  assumes "\<not> isna i" and "i \<in> set ids" and "country_cache st i = None"
  shows "country_cache (foldl (fetch_country_name http) st ids) i
           = Some (case http i of Field name \<Rightarrow> name | _ \<Rightarrow> i)"
  using assms(2,3)
proof (induction ids arbitrary: st)
  case Nil
  then show ?case by simp
next
  case (Cons a ids)
  show ?case
  proof (cases "a = i")
    case True
    with assms(1) Cons.prems(2)
    have "country_cache (fetch_country_name http st a) i = Some (case http i of Field name \<Rightarrow> name | _ \<Rightarrow> i)"
      by (simp add: fetch_country_name_state)
    then show ?thesis
      by (simp add: foldl_fetch_country_name_keeps)
  next
    case False
    with Cons.prems have "i \<in> set ids" and "country_cache (fetch_country_name http st a) i = None"
      by (auto simp: fetch_country_name_state)
    then show ?thesis
      using Cons.IH by simp
  qed
qed

text \<open>
  Claim C2. For an identifier \<open>i\<close> that is not missing, the cache has an entry for \<open>i\<close>
  after \<^verbatim>\<open>fetch_username\<close> (after \<^verbatim>\<open>fetch_country_name\<close>) returns. When \<open>i\<close> was not
  cached, the entry is the field read from the reply when the request, the decoding and
  the field access all succeed, and \<open>i\<close> itself in every other case. The function always
  returns a state: whatever the \<^verbatim>\<open>try\<close> block raises is caught. The call keeps every
  other entry of both caches. So after the two rounds of calls that \<^verbatim>\<open>__main__\<close> makes,
  over the user identifiers and then over the country identifiers, every submitted
  identifier that is not missing has its entry, in whatever order the identifiers are
  taken: the resolved name or the identifier itself where the caches started without it,
  and the entry it had otherwise.
\<close>

theorem fetch_resolves_every_id:
  assumes "\<not> isna i"
  shows "user_cache (fetch_username http st i) i \<noteq> None
       \<and> (user_cache st i = None \<longrightarrow>
            user_cache (fetch_username http st i) i = Some (case http i of Field name \<Rightarrow> name | _ \<Rightarrow> i))
       \<and> (\<forall>j. j \<noteq> i \<longrightarrow> user_cache (fetch_username http st i) j = user_cache st j)
       \<and> country_cache (fetch_username http st i) = country_cache st
       \<and> country_cache (fetch_country_name http st i) i \<noteq> None
       \<and> (country_cache st i = None \<longrightarrow>
            country_cache (fetch_country_name http st i) i = Some (case http i of Field name \<Rightarrow> name | _ \<Rightarrow> i))
       \<and> (\<forall>j. j \<noteq> i \<longrightarrow> country_cache (fetch_country_name http st i) j = country_cache st j)
       \<and> user_cache (fetch_country_name http st i) = user_cache st
       \<and> (i \<in> set user_ids \<longrightarrow>
            user_cache (foldl (fetch_country_name countries) (foldl (fetch_username users) st user_ids) country_ids) i
              = (case user_cache st i of
                   None \<Rightarrow> Some (case users i of Field name \<Rightarrow> name | _ \<Rightarrow> i)
                 | Some v \<Rightarrow> Some v))
       \<and> (i \<in> set country_ids \<longrightarrow>
            country_cache (foldl (fetch_country_name countries) (foldl (fetch_username users) st user_ids) country_ids) i
              = (case country_cache st i of
                   None \<Rightarrow> Some (case countries i of Field name \<Rightarrow> name | _ \<Rightarrow> i)
                 | Some v \<Rightarrow> Some v))"
proof -
  have "user_cache (foldl (fetch_username users) st user_ids) i
          = (case user_cache st i of
               None \<Rightarrow> Some (case users i of Field name \<Rightarrow> name | _ \<Rightarrow> i)
             | Some v \<Rightarrow> Some v)"
    if "i \<in> set user_ids"
    using assms that
    by (cases "user_cache st i") (simp_all add: foldl_fetch_username_resolves foldl_fetch_username_keeps)
  moreover have "country_cache (foldl (fetch_country_name countries) (foldl (fetch_username users) st user_ids) country_ids) i
          = (case country_cache st i of
               None \<Rightarrow> Some (case countries i of Field name \<Rightarrow> name | _ \<Rightarrow> i)
             | Some v \<Rightarrow> Some v)"
    if "i \<in> set country_ids"
    using assms that
    by (cases "country_cache st i")
      (simp_all add: foldl_fetch_country_name_resolves foldl_fetch_country_name_keeps foldl_fetch_username_state)
  ultimately show ?thesis
    using assms
    by (simp add: fetch_username_state fetch_country_name_state foldl_fetch_country_name_state)
qed

text \<open>
  Witness for C2: a user that resolves and a country whose request fails; and the two
  users \<open>A\<close> and \<open>B\<close> given one after the other, after which both have their entry.
\<close>

theorem fetch_resolves_every_id_witness:
  "user_cache (fetch_username example_http empty_resolver (CStr ''A'')) (CStr ''A'') = Some (CStr ''alice'')
   \<and> country_cache (fetch_country_name example_http empty_resolver (CStr ''X'')) (CStr ''X'') = Some (CStr ''X'')
   \<and> user_cache (foldl (fetch_country_name example_http)
                   (foldl (fetch_username example_http) empty_resolver [CStr ''A'', CStr ''B''])
                   [CStr ''X'', CStr ''Y'']) (CStr ''A'') = Some (CStr ''alice'')
   \<and> user_cache (foldl (fetch_country_name example_http)
                   (foldl (fetch_username example_http) empty_resolver [CStr ''A'', CStr ''B''])
                   [CStr ''X'', CStr ''Y'']) (CStr ''B'') = Some (CStr ''B'')"
  using fetch_resolves_every_id [of "CStr ''A''" example_http empty_resolver "[CStr ''A'', CStr ''B'']"
      example_http example_http "[CStr ''X'', CStr ''Y'']"]
    fetch_resolves_every_id [of "CStr ''X''" example_http empty_resolver]
    fetch_resolves_every_id [of "CStr ''B''" example_http empty_resolver "[CStr ''A'', CStr ''B'']"
      example_http example_http "[CStr ''X'', CStr ''Y'']"]
  by (simp add: example_http_def empty_resolver_def)

text \<open>
  Claim C7. On an identifier that is missing or already cached, \<^verbatim>\<open>fetch_username\<close> and
  \<^verbatim>\<open>fetch_country_name\<close> leave the whole state as it is: no request is added to the trace
  and no cache entry changes. Hence resolving an identifier a second time, whatever the
  endpoint would then answer, gives the state of the first resolution.
\<close>

theorem resolution_idempotent:
  "(isna i \<or> user_cache st i \<noteq> None \<longrightarrow> fetch_username http st i = st)
   \<and> (isna i \<or> country_cache st i \<noteq> None \<longrightarrow> fetch_country_name http st i = st)
   \<and> fetch_username http' (fetch_username http st i) i = fetch_username http st i
   \<and> fetch_country_name http' (fetch_country_name http st i) i = fetch_country_name http st i"
  by (cases "http i") (auto simp: fetch_username_def fetch_country_name_def Let_def)

text \<open>Witness for C7: the second call and the call on \<^verbatim>\<open>None\<close> change nothing.\<close>

theorem resolution_idempotent_witness:
  "fetch_username (\<lambda>i. RequestFailed) (fetch_username example_http empty_resolver (CStr ''A'')) (CStr ''A'')
     = fetch_username example_http empty_resolver (CStr ''A'')
   \<and> fetch_username example_http empty_resolver CNone = empty_resolver
   \<and> trace (fetch_username example_http empty_resolver (CStr ''A'')) = [GetUser (CStr ''A'')]"
  using resolution_idempotent [of "CStr ''A''" empty_resolver example_http "\<lambda>i. RequestFailed"]
    resolution_idempotent [of CNone empty_resolver example_http example_http]
  by (simp add: fetch_username_def example_http_def empty_resolver_def)

subsection \<open>The main pipeline on an empty collection\<close>

text \<open>The fetcher adds only requests and pauses to the events.\<close>

lemma fetch_loop_events:
  "fetch_loop acc c tr rs = Some (tr', r) \<Longrightarrow> \<forall>e \<in> set tr. is_fetch_event e \<Longrightarrow> \<forall>e \<in> set tr'. is_fetch_event e"
proof (induction rs arbitrary: acc c tr)
  case Nil
  then show ?case by simp
next
  case (Cons res rest)
  let ?tr = "tr @ [GetTransactions (if truthy c then c else CNone)]"
  have tr: "\<forall>e \<in> set ?tr. is_fetch_event e"
    using Cons.prems(2) by simp
  show ?case
  proof (cases "status_code res = 200 \<and> (\<exists>items next. body res = Page items next \<and> truthy next)")
    case True
    then obtain items "next" where p: "status_code res = 200" "body res = Page items next" "truthy next"
      by blast
    have "fetch_loop (all_items @ items) next (?tr @ [Sleep]) rest = fetch_loop all_items c tr (res # rest)" for all_items
      using p by (simp add: Let_def)
    then have "fetch_loop (acc @ items) next (?tr @ [Sleep]) rest = Some (tr', r)"
      using Cons.prems(1) by simp
    moreover have "\<forall>e \<in> set (?tr @ [Sleep]). is_fetch_event e"
      using tr by simp
    ultimately show ?thesis
      by (rule Cons.IH)
  next
    case False
    then have "tr' = ?tr"
      using Cons.prems(1) by (cases "body res") (auto simp: Let_def split: if_splits)
    with tr show ?thesis by simp
  qed
qed

text \<open>
  Claim C10. When \<^verbatim>\<open>fetch_transactions\<close> returns the empty collection, the frame has no
  column, and \<^verbatim>\<open>__main__\<close> ends with the \<^verbatim>\<open>KeyError\<close> of the selection of
  \<^verbatim>\<open>sellerId\<close> and \<^verbatim>\<open>buyerId\<close>. The events of the whole run are those of the fetcher:
  no user or country is looked up and no file is written.
\<close>

theorem main_empty_collection:
  assumes "fetch_transactions rs = Some (tr, Inr (DataFrame []))"
  shows "main l rs users countries = Some (tr, Inl (KeyError [''sellerId'', ''buyerId'']))
       \<and> (\<forall>e \<in> set tr. is_fetch_event e)"
proof -
  have "unique_values (DataFrame []) [''sellerId'', ''buyerId''] = Inl (KeyError [''sellerId'', ''buyerId''])"
    by (simp add: unique_values_def getitems_def DataFrame_def unique_def)
  then have "main l rs users countries = Some (tr, Inl (KeyError [''sellerId'', ''buyerId'']))"
    using assms by (simp add: main_def)
  moreover from assms obtain r where "fetch_loop [] CNone [] rs = Some (tr, r)"
    by (auto simp: fetch_transactions_def)
  then have "\<forall>e \<in> set tr. is_fetch_event e"
    using fetch_loop_events [of "[]" CNone "[]" rs tr r] by simp
  ultimately show ?thesis by simp
qed

text \<open>Witness for C10: a first page with an empty item list and no cursor.\<close>

theorem main_empty_collection_witness:
  "main example_lib [\<lparr>status_code = 200, body = Page [] CNone\<rparr>] example_http example_http
     = Some ([GetTransactions CNone], Inl (KeyError [''sellerId'', ''buyerId'']))"
  using main_empty_collection [of "[\<lparr>status_code = 200, body = Page [] CNone\<rparr>]" "[GetTransactions CNone]"
      example_lib example_http example_http]
  by (simp add: fetch_transactions_def)

subsection \<open>Frames, columns and fallible steps\<close>

text \<open>
  A sequence of fallible steps succeeds when each step does; reading a column after an
  assignment gives the assigned column or the old one; a selection succeeds when every
  name is a column.
\<close>

lemma bind_err_Inr_iff: "bind_err m f = Inr y \<longleftrightarrow> (\<exists>x. m = Inr x \<and> f x = Inr y)"
  by (cases m) auto

lemma map_of_assign: "map_of (assign cs n s) = (map_of cs)(n \<mapsto> s)"
  by (induction cs n s rule: assign.induct) auto

lemma getitem_setitem: "getitem (setitem df n s) m = (if m = n then Inr s else getitem df m)"
  by (simp add: getitem_def setitem_def map_of_assign)

lemma nrows_setitem: "nrows (setitem df n s) = nrows df"
  by (simp add: setitem_def)

lemma getitem_Inr_iff: "getitem df n = Inr s \<longleftrightarrow> map_of (cols df) n = Some s"
  by (simp add: getitem_def split: option.splits)

lemma filter_missing_Nil:
  "filter (\<lambda>n. map_of cs n = None) names = [] \<longleftrightarrow> (\<forall>n \<in> set names. map_of cs n \<noteq> None)"
  by (simp add: filter_empty_conv)

lemma getitems_Inr_iff:
  "getitems df names = Inr sel \<longleftrightarrow>
     (\<exists>ss. list_all2 (\<lambda>n s. getitem df n = Inr s) names ss \<and> sel = \<lparr>nrows = nrows df, cols = zip names ss\<rparr>)"
proof -
  let ?ss = "map (\<lambda>n. the (map_of (cols df) n)) names"
  have zip: "map (\<lambda>n. (n, the (map_of (cols df) n))) names = zip names ?ss"
    by (induction names) auto
  show ?thesis
  proof (cases "\<forall>n \<in> set names. map_of (cols df) n \<noteq> None")
    case True
    then have all: "list_all2 (\<lambda>n s. getitem df n = Inr s) names ?ss"
      by (auto simp: list_all2_conv_all_nth getitem_Inr_iff)
    have uniq: "ss = ?ss" if "list_all2 (\<lambda>n s. getitem df n = Inr s) names ss" for ss
      using that by (auto simp: list_all2_conv_all_nth getitem_Inr_iff intro!: nth_equalityI)
    from True have eq: "getitems df names = Inr \<lparr>nrows = nrows df, cols = zip names ?ss\<rparr>"
      by (simp add: getitems_def filter_missing_Nil[THEN iffD2] zip)
    show ?thesis
    proof
      assume "getitems df names = Inr sel"
      with eq have "sel = \<lparr>nrows = nrows df, cols = zip names ?ss\<rparr>" by simp
      with all show "\<exists>ss. list_all2 (\<lambda>n s. getitem df n = Inr s) names ss \<and> sel = \<lparr>nrows = nrows df, cols = zip names ss\<rparr>"
        by blast
    next
      assume "\<exists>ss. list_all2 (\<lambda>n s. getitem df n = Inr s) names ss \<and> sel = \<lparr>nrows = nrows df, cols = zip names ss\<rparr>"
      then obtain ss where ss: "list_all2 (\<lambda>n s. getitem df n = Inr s) names ss"
        and sel: "sel = \<lparr>nrows = nrows df, cols = zip names ss\<rparr>" by blast
      from uniq[OF ss] sel eq show "getitems df names = Inr sel" by simp
    qed
  next
    case False
    then have "filter (\<lambda>n. map_of (cols df) n = None) names \<noteq> []"
      by (simp add: filter_missing_Nil)
    then have "\<forall>sel. getitems df names \<noteq> Inr sel"
      by (auto simp: getitems_def split: list.splits)
    moreover have "\<not> list_all2 (\<lambda>n s. getitem df n = Inr s) names ss" for ss
    proof
      assume a: "list_all2 (\<lambda>n s. getitem df n = Inr s) names ss"
      from False obtain n where n: "n \<in> set names" "map_of (cols df) n = None" by blast
      from a n(1) obtain s where "getitem df n = Inr s"
        by (auto simp: list_all2_conv_all_nth in_set_conv_nth)
      with n(2) show False by (simp add: getitem_Inr_iff)
    qed
    ultimately show ?thesis by simp
  qed
qed

lemma traverse_Inr_iff: "traverse f xs = Inr ys \<longleftrightarrow> list_all2 (\<lambda>x y. f x = Inr y) xs ys"
  by (induction xs arbitrary: ys) (auto simp: bind_err_Inr_iff list_all2_Cons1)

lemma traverse_length: "traverse f xs = Inr ys \<Longrightarrow> length ys = length xs"
  by (simp add: traverse_Inr_iff list_all2_lengthD)

lemma astype_float_Inr_iff:
  "astype_float l s = Inr s' \<longleftrightarrow> (\<exists>xs. traverse (float_of l) s = Inr xs \<and> s' = map CFloat xs)"
  by (auto simp: astype_float_def bind_err_Inr_iff)

text \<open>
  Whether \<^verbatim>\<open>pd.to_numeric\<close> leaves an integer column or a float column, the division takes
  each cell of it as the same float.
\<close>

lemma length_to_numeric: "length (to_numeric l s) = length s"
  by (simp add: to_numeric_def Let_def)

lemma as_float_to_numeric:
  "i < length s \<Longrightarrow> as_float l (to_numeric l s ! i) = Some (to_float64 l (numeric_of l (s ! i)))"
  by (cases "numeric_of l (s ! i)") (simp_all add: to_numeric_def Let_def)

lemma truediv_to_numeric:
  "truediv l (map CFloat ms) (to_numeric l quantity) = Inr (moneyPerUnit l ms quantity)"
  unfolding truediv_def traverse_Inr_iff
  by (simp add: list_all2_conv_all_nth moneyPerUnit_def length_to_numeric truediv_cell_def as_float_to_numeric)

subsection \<open>What \<^verbatim>\<open>clean_and_export\<close> computes\<close>

text \<open>
  When the eight columns it reads are there, the money column converts and the
  timestamps format, \<^verbatim>\<open>clean_and_export\<close> raises nothing: it leaves \<open>frame_after\<close> and
  writes \<open>final_df\<close> to both files.
\<close>

lemma getitems_frame_after:
  assumes "getitem df ''itemCode'' = Inr itemCode"
  shows "getitems (frame_after l st df ms quantity sellerId buyerId sellerCountryId buyerCountryId dates)
           [''sellerCountryId'', ''sellerId'', ''itemCode'', ''quantity'',
            ''moneyPerUnit'', ''buyerCountryId'', ''buyerId'', ''money'', ''updatedAt'']
         = Inr \<lparr> nrows = nrows df,
                 cols = [(''sellerCountryId'', series_map (country_cache st) sellerCountryId),
                         (''sellerId'', series_map (user_cache st) sellerId),
                         (''itemCode'', itemCode),
                         (''quantity'', to_numeric l quantity),
                         (''moneyPerUnit'', moneyPerUnit l ms quantity),
                         (''buyerCountryId'', series_map (country_cache st) buyerCountryId),
                         (''buyerId'', series_map (user_cache st) buyerId),
                         (''money'', map CFloat ms),
                         (''updatedAt'', dates)] \<rparr>"
  unfolding getitems_Inr_iff frame_after_def
  by (simp add: list_all2_Cons1 getitem_setitem nrows_setitem assms)

lemma select_and_rename_frame_after:
  assumes "getitem df ''itemCode'' = Inr itemCode"
  shows "select_and_rename (frame_after l st df ms quantity sellerId buyerId sellerCountryId buyerCountryId dates)
         = Inr (final_df l st df ms quantity sellerId buyerId sellerCountryId buyerCountryId itemCode dates)"
  by (simp add: select_and_rename_def getitems_frame_after [OF assms] rename_def final_df_def)

lemma run_assignments:
  assumes "getitem df ''money'' = Inr money" and "traverse (float_of l) money = Inr ms"
    and "getitem df ''quantity'' = Inr quantity"
    and "getitem df ''sellerId'' = Inr sellerId" and "getitem df ''buyerId'' = Inr buyerId"
    and "getitem df ''sellerCountryId'' = Inr sellerCountryId"
    and "getitem df ''buyerCountryId'' = Inr buyerCountryId"
    and "getitem df ''updatedAt'' = Inr updatedAt" and "format_dates l updatedAt = Inr dates"
  shows "run (assignments l st) df
         = (frame_after l st df ms quantity sellerId buyerId sellerCountryId buyerCountryId dates, None)"
proof -
  have astype: "astype_float l money = Inr (map CFloat ms)"
    using assms(2) by (simp add: astype_float_Inr_iff)
  show ?thesis
    unfolding assignments_def frame_after_def
    by (simp add: assms astype getitem_setitem truediv_to_numeric)
qed

lemma clean_and_export_success:
  assumes "getitem df ''money'' = Inr money" and "traverse (float_of l) money = Inr ms"
    and "getitem df ''quantity'' = Inr quantity"
    and "getitem df ''sellerId'' = Inr sellerId" and "getitem df ''buyerId'' = Inr buyerId"
    and "getitem df ''sellerCountryId'' = Inr sellerCountryId"
    and "getitem df ''buyerCountryId'' = Inr buyerCountryId"
    and "getitem df ''itemCode'' = Inr itemCode"
    and "getitem df ''updatedAt'' = Inr updatedAt" and "format_dates l updatedAt = Inr dates"
  shows "clean_and_export l st df =
      (frame_after l st df ms quantity sellerId buyerId sellerCountryId buyerCountryId dates,
       Inr [ToCsv (final_df l st df ms quantity sellerId buyerId sellerCountryId buyerCountryId itemCode dates),
            ToExcel (final_df l st df ms quantity sellerId buyerId sellerCountryId buyerCountryId itemCode dates)])"
  by (simp add: clean_and_export_def run_assignments [OF assms(1-7,9,10)]
      select_and_rename_frame_after [OF assms(8)])

subsection \<open>What the assignments keep of the frame\<close>

lemma columns_assign:
  "map fst (assign cs n s) = (if n \<in> set (map fst cs) then map fst cs else map fst cs @ [n])"
  by (induction cs n s rule: assign.induct) auto

lemma columns_setitem:
  "columns (setitem df n s) = (if n \<in> set (columns df) then columns df else columns df @ [n])"
  by (simp add: columns_def setitem_def columns_assign)

lemma getitem_Inr_columns: "getitem df n = Inr s \<Longrightarrow> n \<in> set (columns df)"
  by (auto simp: getitem_Inr_iff columns_def dest: map_of_SomeD intro: rev_image_eqI)

lemma list_all_assign: "list_all P cs \<Longrightarrow> P (n, s) \<Longrightarrow> list_all P (assign cs n s)"
  by (induction cs n s rule: assign.induct) auto

lemma wf_frame_setitem: "wf_frame df \<Longrightarrow> length s = nrows df \<Longrightarrow> wf_frame (setitem df n s)"
  by (simp add: wf_frame_def setitem_def list_all_assign)

lemma wf_frame_getitem: "wf_frame df \<Longrightarrow> getitem df n = Inr s \<Longrightarrow> length s = nrows df"
  by (auto simp: wf_frame_def getitem_Inr_iff list_all_iff dest: map_of_SomeD)

lemma kept_refl: "kept df df"
  by (simp add: kept_def)

text \<open>
  An assignment to one of the eight columns, of as many cells as the frame has rows,
  keeps what \<open>kept\<close> says, when the column is there or is moneyPerUnit.
\<close>

lemma kept_setitem:
  assumes "kept df0 df" and "n \<in> set assigned_columns"
    and "n \<in> set (columns df) \<or> n = ''moneyPerUnit''"
    and "wf_frame df \<Longrightarrow> length s = nrows df"
  shows "kept df0 (setitem df n s)"
proof -
  have "nrows (setitem df n s) = nrows df0"
    using assms(1) by (simp add: kept_def nrows_setitem)
  moreover have "wf_frame df0 \<longrightarrow> wf_frame (setitem df n s)"
    using assms(1,4) by (auto simp: kept_def intro: wf_frame_setitem)
  moreover have "getitem (setitem df n s) c = getitem df0 c" if "c \<notin> set assigned_columns" for c
    using assms(1,2) that by (auto simp: kept_def getitem_setitem)
  moreover have "columns (setitem df n s) = columns df0
        \<or> ''moneyPerUnit'' \<notin> set (columns df0) \<and> columns (setitem df n s) = columns df0 @ [''moneyPerUnit'']"
    using assms(1,3) by (auto simp: kept_def columns_setitem)
  ultimately show ?thesis
    by (simp add: kept_def)
qed

lemma kept_assign_column:
  assumes "kept df0 df" and "getitem df n = Inr col" and "n \<in> set assigned_columns"
    and "length s = length col"
  shows "kept df0 (setitem df n s)"
  using assms(1,3)
proof (rule kept_setitem)
  show "n \<in> set (columns df) \<or> n = ''moneyPerUnit''"
    using assms(2) by (simp add: getitem_Inr_columns)
  show "length s = nrows df" if "wf_frame df"
    using that assms(2,4) by (simp add: wf_frame_getitem)
qed

lemma kept_assign_quotient:
  assumes "kept df0 df" and "getitem df ''money'' = Inr money" and "getitem df ''quantity'' = Inr quantity"
    and "truediv l money quantity = Inr s"
  shows "kept df0 (setitem df ''moneyPerUnit'' s)"
  using assms(1)
proof (rule kept_setitem)
  show "''moneyPerUnit'' \<in> set assigned_columns"
    by (simp add: assigned_columns_def)
  show "''moneyPerUnit'' \<in> set (columns df) \<or> ''moneyPerUnit'' = ''moneyPerUnit''"
    by simp
  show "length s = nrows df" if "wf_frame df"
    using that assms(2-4) traverse_length [of "\<lambda>(x, y). truediv_cell l x y" "zip money quantity" s]
    by (simp add: truediv_def wf_frame_getitem)
qed

text \<open>Each of the eight assignments keeps it, and so does any run of them.\<close>

lemma assignments_kept:
  assumes "s \<in> set (assignments l st)" and "kept df0 d" and "s d = Inr d'"
  shows "kept df0 d'"
proof -
  have len: "length (series_map cache col) = length col" for cache col
    by (simp add: series_map_def)
  have names: "''money'' \<in> set assigned_columns" "''quantity'' \<in> set assigned_columns"
    "''sellerId'' \<in> set assigned_columns" "''buyerId'' \<in> set assigned_columns"
    "''sellerCountryId'' \<in> set assigned_columns" "''buyerCountryId'' \<in> set assigned_columns"
    "''updatedAt'' \<in> set assigned_columns"
    by (simp_all add: assigned_columns_def)
  from assms(1) consider
      (money) "s = (\<lambda>df. bind_err (getitem df ''money'') (\<lambda>money.
            bind_err (astype_float l money) (\<lambda>money. Inr (setitem df ''money'' money))))"
    | (quantity) "s = (\<lambda>df. bind_err (getitem df ''quantity'') (\<lambda>quantity.
            Inr (setitem df ''quantity'' (to_numeric l quantity))))"
    | (sellerId) "s = (\<lambda>df. bind_err (getitem df ''sellerId'') (\<lambda>sellerId.
            Inr (setitem df ''sellerId'' (series_map (user_cache st) sellerId))))"
    | (buyerId) "s = (\<lambda>df. bind_err (getitem df ''buyerId'') (\<lambda>buyerId.
            Inr (setitem df ''buyerId'' (series_map (user_cache st) buyerId))))"
    | (sellerCountryId) "s = (\<lambda>df. bind_err (getitem df ''sellerCountryId'') (\<lambda>sellerCountryId.
            Inr (setitem df ''sellerCountryId'' (series_map (country_cache st) sellerCountryId))))"
    | (buyerCountryId) "s = (\<lambda>df. bind_err (getitem df ''buyerCountryId'') (\<lambda>buyerCountryId.
            Inr (setitem df ''buyerCountryId'' (series_map (country_cache st) buyerCountryId))))"
    | (moneyPerUnit) "s = (\<lambda>df. bind_err (getitem df ''money'') (\<lambda>money.
            bind_err (getitem df ''quantity'') (\<lambda>quantity.
            bind_err (truediv l money quantity) (\<lambda>moneyPerUnit.
            Inr (setitem df ''moneyPerUnit'' moneyPerUnit)))))"
    | (updatedAt) "s = (\<lambda>df. bind_err (getitem df ''updatedAt'') (\<lambda>updatedAt.
            bind_err (format_dates l updatedAt) (\<lambda>updatedAt.
            Inr (setitem df ''updatedAt'' updatedAt))))"
    unfolding assignments_def by auto
  then show ?thesis
  proof cases
    case money
    with assms(3) obtain col xs where "getitem d ''money'' = Inr col" "traverse (float_of l) col = Inr xs"
      "d' = setitem d ''money'' (map CFloat xs)"
      by (auto simp: bind_err_Inr_iff astype_float_Inr_iff)
    with assms(2) names(1) show ?thesis
      by (auto intro!: kept_assign_column dest: traverse_length)
  next
    case quantity
    with assms(3) obtain col where "getitem d ''quantity'' = Inr col"
      "d' = setitem d ''quantity'' (to_numeric l col)"
      by (auto simp: bind_err_Inr_iff)
    with assms(2) names(2) show ?thesis
      by (auto intro!: kept_assign_column simp: length_to_numeric)
  next
    case sellerId
    with assms(3) obtain col where "getitem d ''sellerId'' = Inr col"
      "d' = setitem d ''sellerId'' (series_map (user_cache st) col)"
      by (auto simp: bind_err_Inr_iff)
    with assms(2) names(3) show ?thesis
      by (auto intro!: kept_assign_column simp: len)
  next
    case buyerId
    with assms(3) obtain col where "getitem d ''buyerId'' = Inr col"
      "d' = setitem d ''buyerId'' (series_map (user_cache st) col)"
      by (auto simp: bind_err_Inr_iff)
    with assms(2) names(4) show ?thesis
      by (auto intro!: kept_assign_column simp: len)
  next
    case sellerCountryId
    with assms(3) obtain col where "getitem d ''sellerCountryId'' = Inr col"
      "d' = setitem d ''sellerCountryId'' (series_map (country_cache st) col)"
      by (auto simp: bind_err_Inr_iff)
    with assms(2) names(5) show ?thesis
      by (auto intro!: kept_assign_column simp: len)
  next
    case buyerCountryId
    with assms(3) obtain col where "getitem d ''buyerCountryId'' = Inr col"
      "d' = setitem d ''buyerCountryId'' (series_map (country_cache st) col)"
      by (auto simp: bind_err_Inr_iff)
    with assms(2) names(6) show ?thesis
      by (auto intro!: kept_assign_column simp: len)
  next
    case moneyPerUnit
    with assms(3) obtain m q v where "getitem d ''money'' = Inr m" "getitem d ''quantity'' = Inr q"
      "truediv l m q = Inr v" "d' = setitem d ''moneyPerUnit'' v"
      by (auto simp: bind_err_Inr_iff)
    with assms(2) show ?thesis
      by (auto intro: kept_assign_quotient)
  next
    case updatedAt
    with assms(3) obtain col v where "getitem d ''updatedAt'' = Inr col" "format_dates l col = Inr v"
      "d' = setitem d ''updatedAt'' v"
      by (auto simp: bind_err_Inr_iff)
    with assms(2) names(7) show ?thesis
      by (auto intro!: kept_assign_column dest: traverse_length simp: format_dates_def)
  qed
qed

lemma run_invariant:
  assumes "P df" and "\<And>s d d'. s \<in> set ss \<Longrightarrow> P d \<Longrightarrow> s d = Inr d' \<Longrightarrow> P d'"
  shows "P (fst (run ss df))"
  using assms
proof (induction ss arbitrary: df)
  case Nil
  then show ?case by simp
next
  case (Cons s ss)
  show ?case
  proof (cases "s df")
    case (Inl e)
    with Cons.prems(1) show ?thesis by simp
  next
    case (Inr d')
    with Cons.prems have "P d'"
      by auto
    then have "P (fst (run ss d'))"
      using Cons.prems(2) by (intro Cons.IH) auto
    with Inr show ?thesis by simp
  qed
qed

lemma fst_clean_and_export: "fst (clean_and_export l st df) = fst (run (assignments l st) df)"
  by (simp add: clean_and_export_def split: prod.splits option.splits sum.splits)

lemma clean_and_export_kept: "kept df (fst (clean_and_export l st df))"
  unfolding fst_clean_and_export
  by (rule run_invariant [where P = "kept df"]) (auto intro: kept_refl assignments_kept)

text \<open>When \<^verbatim>\<open>clean_and_export\<close> returns, the frame it leaves has the column moneyPerUnit.\<close>

lemma clean_and_export_Inr_column:
  assumes "snd (clean_and_export l st df) = Inr written"
  shows "''moneyPerUnit'' \<in> set (columns (fst (clean_and_export l st df)))"
proof -
  obtain df' r where run: "run (assignments l st) df = (df', r)"
    by (cases "run (assignments l st) df")
  with assms obtain final where "select_and_rename df' = Inr final" and "fst (clean_and_export l st df) = df'"
    by (auto simp: clean_and_export_def split: option.splits sum.splits)
  then show ?thesis
    by (auto simp: select_and_rename_def bind_err_Inr_iff getitems_Inr_iff list_all2_Cons1
        dest: getitem_Inr_columns)
qed

subsection \<open>The examples, evaluated\<close>


lemma example_df_eq:
  "example_df =
     \<lparr> nrows = 2,
       cols = [(''sellerId'', [CStr ''A'', CStr ''A'']), (''buyerId'', [CStr ''B'', CStr ''B'']),
               (''sellerCountryId'', [CStr ''X'', CStr ''X'']), (''buyerCountryId'', [CStr ''Y'', CStr ''Y'']),
               (''itemCode'', [CStr ''bread'', CStr ''bread'']), (''quantity'', [CInt 4, CInt 0]),
               (''money'', [CFloat (Fin 100), CFloat (Fin 50)]),
               (''updatedAt'', [CStr ''2025-06-01T12:30:00.000Z'', CStr ''2025-06-01T12:30:00.000Z''])] \<rparr>"
  by (simp add: example_df_def DataFrame_def example_item_def unique_def)

lemma example_columns:
  "getitem example_df ''money'' = Inr [CFloat (Fin 100), CFloat (Fin 50)]"
  "getitem example_df ''quantity'' = Inr [CInt 4, CInt 0]"
  "getitem example_df ''sellerId'' = Inr [CStr ''A'', CStr ''A'']"
  "getitem example_df ''buyerId'' = Inr [CStr ''B'', CStr ''B'']"
  "getitem example_df ''sellerCountryId'' = Inr [CStr ''X'', CStr ''X'']"
  "getitem example_df ''buyerCountryId'' = Inr [CStr ''Y'', CStr ''Y'']"
  "getitem example_df ''itemCode'' = Inr [CStr ''bread'', CStr ''bread'']"
  "getitem example_df ''updatedAt'' = Inr [CStr ''2025-06-01T12:30:00.000Z'', CStr ''2025-06-01T12:30:00.000Z'']"
  by (simp_all add: example_df_eq getitem_def)

lemma example_conversions:
  "traverse (float_of example_lib) [CFloat (Fin 100), CFloat (Fin 50)] = Inr [Fin 100, Fin 50]"
  "format_dates example_lib [CStr ''2025-06-01T12:30:00.000Z'', CStr ''2025-06-01T12:30:00.000Z'']
     = Inr [CStr ''01/06/2025 12:30'', CStr ''01/06/2025 12:30'']"
  "list_all (int64_cell example_lib) [CInt 4, CInt 0]"
  by (simp_all add: example_lib_def format_dates_def int64_cell_def int64_def)

lemma example_run:
  "clean_and_export example_lib example_caches example_df
     = (example_after, Inr [ToCsv example_final, ToExcel example_final])"
proof -
  have "frame_after example_lib example_caches example_df [Fin 100, Fin 50] [CInt 4, CInt 0]
            [CStr ''A'', CStr ''A''] [CStr ''B'', CStr ''B''] [CStr ''X'', CStr ''X''] [CStr ''Y'', CStr ''Y'']
            [CStr ''01/06/2025 12:30'', CStr ''01/06/2025 12:30''] = example_after"
    by (simp add: frame_after_def example_df_eq setitem_def example_after_def series_map_def
        to_numeric_def moneyPerUnit_def fdiv_def example_lib_def example_caches_def)
  moreover have "final_df example_lib example_caches example_df [Fin 100, Fin 50] [CInt 4, CInt 0]
            [CStr ''A'', CStr ''A''] [CStr ''B'', CStr ''B''] [CStr ''X'', CStr ''X''] [CStr ''Y'', CStr ''Y'']
            [CStr ''bread'', CStr ''bread''] [CStr ''01/06/2025 12:30'', CStr ''01/06/2025 12:30'']
          = example_final"
    by (simp add: final_df_def example_df_eq example_final_def series_map_def
        to_numeric_def moneyPerUnit_def fdiv_def example_lib_def example_caches_def)
  ultimately show ?thesis
    using clean_and_export_success [OF example_columns(1) example_conversions(1) example_columns(2-7)
      example_columns(8) example_conversions(2), of example_caches]
    by simp
qed

text \<open>
  The frame whose quantities are 4, a string that is no number and \<^verbatim>\<open>None\<close>, with the
  moneys 100.0, the string 50.0 and the integer 7.
\<close>

lemma mixed_columns:
  "getitem mixed_df ''money'' = Inr [CFloat (Fin 100), CStr ''50.0'', CInt 7]"
  "getitem mixed_df ''quantity'' = Inr [CInt 4, CStr ''many'', CNone]"
  "getitem mixed_df ''sellerId'' = Inr [CStr ''A'', CStr ''A'', CStr ''A'']"
  "getitem mixed_df ''buyerId'' = Inr [CStr ''B'', CStr ''B'', CStr ''B'']"
  "getitem mixed_df ''sellerCountryId'' = Inr [CStr ''X'', CStr ''X'', CStr ''X'']"
  "getitem mixed_df ''buyerCountryId'' = Inr [CStr ''Y'', CStr ''Y'', CStr ''Y'']"
  "getitem mixed_df ''itemCode'' = Inr [CStr ''bread'', CStr ''bread'', CStr ''bread'']"
  "getitem mixed_df ''updatedAt'' = Inr [CStr ''2025-06-01T12:30:00.000Z'', CStr ''2025-06-01T12:30:00.000Z'',
                                         CStr ''2025-06-01T12:30:00.000Z'']"
  by (simp_all add: mixed_df_def DataFrame_def example_item_def unique_def getitem_def)

lemma mixed_conversions:
  "traverse (float_of example_lib) [CFloat (Fin 100), CStr ''50.0'', CInt 7] = Inr [Fin 100, Fin 50, Fin 7]"
  "format_dates example_lib [CStr ''2025-06-01T12:30:00.000Z'', CStr ''2025-06-01T12:30:00.000Z'',
                             CStr ''2025-06-01T12:30:00.000Z'']
     = Inr [CStr ''01/06/2025 12:30'', CStr ''01/06/2025 12:30'', CStr ''01/06/2025 12:30'']"
  "list_all (int64_cell example_lib) [CInt 4, CStr ''many'', CNone]"
  by (simp_all add: example_lib_def format_dates_def int64_cell_def int64_def)

text \<open>The frame with the column \<^verbatim>\<open>_id\<close>, which \<^verbatim>\<open>clean_and_export\<close> does not read.\<close>

lemma extra_df_eq:
  "extra_df =
     \<lparr> nrows = 1,
       cols = [(''_id'', [CStr ''t1'']), (''sellerId'', [CStr ''A'']), (''buyerId'', [CStr ''B'']),
               (''sellerCountryId'', [CStr ''X'']), (''buyerCountryId'', [CStr ''Y'']),
               (''itemCode'', [CStr ''bread'']), (''quantity'', [CStr ''4'']), (''money'', [CStr ''100.0'']),
               (''updatedAt'', [CStr ''2025-06-01T12:30:00.000Z''])] \<rparr>"
  by (simp add: extra_df_def DataFrame_def example_item_def unique_def)

lemma extra_columns:
  "getitem extra_df ''money'' = Inr [CStr ''100.0'']"
  "getitem extra_df ''quantity'' = Inr [CStr ''4'']"
  "getitem extra_df ''sellerId'' = Inr [CStr ''A'']"
  "getitem extra_df ''buyerId'' = Inr [CStr ''B'']"
  "getitem extra_df ''sellerCountryId'' = Inr [CStr ''X'']"
  "getitem extra_df ''buyerCountryId'' = Inr [CStr ''Y'']"
  "getitem extra_df ''itemCode'' = Inr [CStr ''bread'']"
  "getitem extra_df ''updatedAt'' = Inr [CStr ''2025-06-01T12:30:00.000Z'']"
  by (simp_all add: extra_df_eq getitem_def)

lemma extra_conversions:
  "traverse (float_of example_lib) [CStr ''100.0''] = Inr [Fin 100]"
  "format_dates example_lib [CStr ''2025-06-01T12:30:00.000Z''] = Inr [CStr ''01/06/2025 12:30'']"
  "list_all (int64_cell example_lib) [CStr ''4'']"
  by (simp_all add: example_lib_def format_dates_def int64_cell_def int64_def)

text \<open>
  The frame whose timestamp does not format: the first seven assignments are made, the
  eighth raises, and nothing is written.
\<close>

lemma bad_date_df_eq:
  "bad_date_df =
     \<lparr> nrows = 1,
       cols = [(''sellerId'', [CStr ''A'']), (''buyerId'', [CStr ''B'']),
               (''sellerCountryId'', [CStr ''X'']), (''buyerCountryId'', [CStr ''Y'']),
               (''itemCode'', [CStr ''bread'']), (''quantity'', [CInt 4]), (''money'', [CFloat (Fin 100)]),
               (''updatedAt'', [CStr ''soon''])] \<rparr>"
  by (simp add: bad_date_df_def DataFrame_def example_item_def unique_def)

lemma bad_date_run:
  "clean_and_export example_lib example_caches bad_date_df = (bad_date_after, Inl ValueError)"
  by (simp add: clean_and_export_def assignments_def bad_date_df_eq bad_date_after_def getitem_def
      setitem_def astype_float_def to_numeric_def series_map_def truediv_def truediv_cell_def fdiv_def
      format_dates_def example_lib_def example_caches_def)

subsection \<open>What the later stages do to the collection\<close>

text \<open>
  Claim C9, as amended. The name resolution does not modify the collection: a call of
  either resolver, and the two rounds of calls of \<^verbatim>\<open>__main__\<close>, leave the frame as it is.
  \<^verbatim>\<open>clean_and_export\<close> writes into the frame it is given, whether it returns or raises:
  the frame it leaves has the same number of rows and, as the frame it was given, one
  cell per row in every column; every column other than the eight it assigns to (money,
  quantity, sellerId, buyerId, sellerCountryId, buyerCountryId, moneyPerUnit, updatedAt)
  is as it was; the columns are the same in the same order, or these followed by
  moneyPerUnit when it was not there, which is the case whenever the function returns.
  And it does write: on a frame that has the columns it reads, whose money cells convert,
  whose timestamps format and whose quantity integers have 64 bits, it returns and
  leaves money as floats, quantity as numbers, the four identifier columns as the
  lookups in the caches, updatedAt as the formatted timestamps, and moneyPerUnit as the
  quotients.
\<close>

theorem clean_and_export_frame:
  "frame (fetch_username http st i) = frame st
   \<and> frame (fetch_country_name http st i) = frame st
   \<and> frame (foldl (fetch_country_name countries) (foldl (fetch_username users) st user_ids) country_ids)
       = frame st
   \<and> nrows (fst (clean_and_export l st df)) = nrows df
   \<and> (wf_frame df \<longrightarrow> wf_frame (fst (clean_and_export l st df)))
   \<and> (\<forall>c. c \<notin> set assigned_columns \<longrightarrow> getitem (fst (clean_and_export l st df)) c = getitem df c)
   \<and> (columns (fst (clean_and_export l st df)) = columns df
      \<or> ''moneyPerUnit'' \<notin> set (columns df)
        \<and> columns (fst (clean_and_export l st df)) = columns df @ [''moneyPerUnit''])
   \<and> (\<forall>written. snd (clean_and_export l st df) = Inr written \<longrightarrow>
         ''moneyPerUnit'' \<in> set (columns (fst (clean_and_export l st df))))
   \<and> (getitem df ''money'' = Inr money \<and> traverse (float_of l) money = Inr ms
      \<and> getitem df ''quantity'' = Inr quantity
      \<and> getitem df ''sellerId'' = Inr sellerId \<and> getitem df ''buyerId'' = Inr buyerId
      \<and> getitem df ''sellerCountryId'' = Inr sellerCountryId
      \<and> getitem df ''buyerCountryId'' = Inr buyerCountryId
      \<and> getitem df ''itemCode'' = Inr itemCode
      \<and> getitem df ''updatedAt'' = Inr updatedAt \<and> format_dates l updatedAt = Inr dates
      \<and> list_all (int64_cell l) quantity
      \<longrightarrow> (\<exists>written. snd (clean_and_export l st df) = Inr written)
        \<and> getitem (fst (clean_and_export l st df)) ''money'' = Inr (map CFloat ms)
        \<and> getitem (fst (clean_and_export l st df)) ''quantity'' = Inr (to_numeric l quantity)
        \<and> getitem (fst (clean_and_export l st df)) ''sellerId'' = Inr (series_map (user_cache st) sellerId)
        \<and> getitem (fst (clean_and_export l st df)) ''buyerId'' = Inr (series_map (user_cache st) buyerId)
        \<and> getitem (fst (clean_and_export l st df)) ''sellerCountryId''
            = Inr (series_map (country_cache st) sellerCountryId)
        \<and> getitem (fst (clean_and_export l st df)) ''buyerCountryId''
            = Inr (series_map (country_cache st) buyerCountryId)
        \<and> getitem (fst (clean_and_export l st df)) ''moneyPerUnit'' = Inr (moneyPerUnit l ms quantity)
        \<and> getitem (fst (clean_and_export l st df)) ''updatedAt'' = Inr dates)"
proof -
  have "frame (foldl (fetch_country_name countries) (foldl (fetch_username users) st user_ids) country_ids)
          = frame st"
    by (simp add: foldl_fetch_country_name_state foldl_fetch_username_state)
  moreover note clean_and_export_kept [of df l st, unfolded kept_def]
  moreover have "\<forall>written. snd (clean_and_export l st df) = Inr written \<longrightarrow>
         ''moneyPerUnit'' \<in> set (columns (fst (clean_and_export l st df)))"
    using clean_and_export_Inr_column by blast
  moreover have "(\<exists>written. snd (clean_and_export l st df) = Inr written)
        \<and> getitem (fst (clean_and_export l st df)) ''money'' = Inr (map CFloat ms)
        \<and> getitem (fst (clean_and_export l st df)) ''quantity'' = Inr (to_numeric l quantity)
        \<and> getitem (fst (clean_and_export l st df)) ''sellerId'' = Inr (series_map (user_cache st) sellerId)
        \<and> getitem (fst (clean_and_export l st df)) ''buyerId'' = Inr (series_map (user_cache st) buyerId)
        \<and> getitem (fst (clean_and_export l st df)) ''sellerCountryId''
            = Inr (series_map (country_cache st) sellerCountryId)
        \<and> getitem (fst (clean_and_export l st df)) ''buyerCountryId''
            = Inr (series_map (country_cache st) buyerCountryId)
        \<and> getitem (fst (clean_and_export l st df)) ''moneyPerUnit'' = Inr (moneyPerUnit l ms quantity)
        \<and> getitem (fst (clean_and_export l st df)) ''updatedAt'' = Inr dates"
    if "getitem df ''money'' = Inr money" "traverse (float_of l) money = Inr ms"
      "getitem df ''quantity'' = Inr quantity"
      "getitem df ''sellerId'' = Inr sellerId" "getitem df ''buyerId'' = Inr buyerId"
      "getitem df ''sellerCountryId'' = Inr sellerCountryId"
      "getitem df ''buyerCountryId'' = Inr buyerCountryId"
      "getitem df ''itemCode'' = Inr itemCode"
      "getitem df ''updatedAt'' = Inr updatedAt" "format_dates l updatedAt = Inr dates"
    unfolding clean_and_export_success [OF that, of st]
    by (simp add: frame_after_def getitem_setitem)
  ultimately show ?thesis
    by (simp add: fetch_username_state fetch_country_name_state)
qed

text \<open>
  Witness for C9: on the example the resolution leaves the frame, the item codes stay
  and one column is added; on the frame whose timestamp does not format the function
  raises, and the item codes and the columns stay.
\<close>

theorem clean_and_export_frame_witness:
  "clean_and_export example_lib example_caches example_df
     = (example_after, Inr [ToCsv example_final, ToExcel example_final])
   \<and> frame (foldl (fetch_country_name example_http)
              (foldl (fetch_username example_http) empty_resolver [CStr ''A'', CStr ''B'']) [CStr ''X''])
       = example_df
   \<and> wf_frame example_df \<and> wf_frame example_after
   \<and> getitem example_after ''itemCode'' = getitem example_df ''itemCode''
   \<and> columns example_after = columns example_df @ [''moneyPerUnit'']
   \<and> clean_and_export example_lib example_caches bad_date_df = (bad_date_after, Inl ValueError)
   \<and> getitem bad_date_after ''itemCode'' = getitem bad_date_df ''itemCode''
   \<and> columns bad_date_after = columns bad_date_df @ [''moneyPerUnit'']
   \<and> getitem example_after ''sellerId'' = Inr (series_map (user_cache example_caches) [CStr ''A'', CStr ''A''])"
proof -
  note ok = clean_and_export_frame [where l = example_lib and st = example_caches and df = example_df
      and http = example_http and i = CNone and users = example_http and countries = example_http
      and user_ids = "[]" and country_ids = "[]"
      and money = "[CFloat (Fin 100), CFloat (Fin 50)]" and ms = "[Fin 100, Fin 50]"
      and quantity = "[CInt 4, CInt 0]" and sellerId = "[CStr ''A'', CStr ''A'']"
      and buyerId = "[CStr ''B'', CStr ''B'']" and sellerCountryId = "[CStr ''X'', CStr ''X'']"
      and buyerCountryId = "[CStr ''Y'', CStr ''Y'']" and itemCode = "[CStr ''bread'', CStr ''bread'']"
      and updatedAt = "[CStr ''2025-06-01T12:30:00.000Z'', CStr ''2025-06-01T12:30:00.000Z'']"
      and dates = "[CStr ''01/06/2025 12:30'', CStr ''01/06/2025 12:30'']",
      unfolded example_run fst_conv snd_conv]
  note raised = clean_and_export_frame [where l = example_lib and st = example_caches and df = bad_date_df
      and http = example_http and i = CNone and users = example_http and countries = example_http
      and user_ids = "[]" and country_ids = "[]", unfolded bad_date_run fst_conv snd_conv]
  note resolved = clean_and_export_frame [where st = empty_resolver and users = example_http
      and countries = example_http and user_ids = "[CStr ''A'', CStr ''B'']" and country_ids = "[CStr ''X'']"
      and http = example_http and i = CNone and l = example_lib and df = example_df]
  have wf: "wf_frame example_df"
    by (simp add: wf_frame_def example_df_eq)
  have item: "''itemCode'' \<notin> set assigned_columns"
    by (simp add: assigned_columns_def)
  have new: "''moneyPerUnit'' \<notin> set (columns example_df)" "''moneyPerUnit'' \<in> set (columns bad_date_after)"
    "''moneyPerUnit'' \<notin> set (columns bad_date_df)"
    by (simp_all add: columns_def example_df_eq bad_date_after_def bad_date_df_eq)
  from ok wf have "wf_frame example_after"
    by blast
  moreover from ok item have "getitem example_after ''itemCode'' = getitem example_df ''itemCode''"
    by blast
  moreover from ok new(1) have "columns example_after = columns example_df @ [''moneyPerUnit'']"
    by metis
  moreover from raised item have "getitem bad_date_after ''itemCode'' = getitem bad_date_df ''itemCode''"
    by blast
  moreover from raised new(2,3) have "columns bad_date_after = columns bad_date_df @ [''moneyPerUnit'']"
    by metis
  moreover from resolved have "frame (foldl (fetch_country_name example_http)
              (foldl (fetch_username example_http) empty_resolver [CStr ''A'', CStr ''B'']) [CStr ''X''])
       = example_df"
    by (simp add: empty_resolver_def)
  moreover from ok example_columns example_conversions
  have "getitem example_after ''sellerId'' = Inr (series_map (user_cache example_caches) [CStr ''A'', CStr ''A''])"
    by blast
  ultimately show ?thesis
    using wf example_run bad_date_run by simp
qed

text \<open>
  Counterexample to C9 as stated: after \<^verbatim>\<open>clean_and_export\<close> the collection built by the
  fetch is another frame; its sellerId column holds the names in place of the identifiers.
\<close>

theorem clean_and_export_frame_counterexample:
  "clean_and_export example_lib example_caches example_df
     = (example_after, Inr [ToCsv example_final, ToExcel example_final])
   \<and> example_after \<noteq> example_df
   \<and> getitem example_df ''sellerId'' = Inr [CStr ''A'', CStr ''A'']
   \<and> getitem example_after ''sellerId'' = Inr [CStr ''alice'', CStr ''alice'']"
proof -
  have "example_after \<noteq> example_df"
    by (simp add: example_df_eq example_after_def)
  moreover have "getitem example_df ''sellerId'' = Inr [CStr ''A'', CStr ''A'']"
    by (simp add: example_df_eq getitem_def)
  moreover have "getitem example_after ''sellerId'' = Inr [CStr ''alice'', CStr ''alice'']"
    by (simp add: example_after_def getitem_def)
  ultimately show ?thesis
    using example_run by simp
qed

subsection \<open>The exported table\<close>

text \<open>
  Claim C5. Let the frame have the eight columns \<^verbatim>\<open>clean_and_export\<close> reads, whatever
  other columns it has, let every money cell convert under \<^verbatim>\<open>astype(float)\<close>, let the
  timestamps format and let the integers of the quantity column have 64 bits. Then
  \<^verbatim>\<open>clean_and_export\<close> returns and has written one and the same table to both files; the table has exactly the nine columns
  sellerCountry, sellBy, itemCode, quantity, moneyPerUnit, buyerCountry, buyerBy,
  totalMoney, updatedAt, in this order, and as many rows as the input. The renamed
  columns hold what the frame has under the old names (sellerCountryId, sellerId,
  buyerCountryId, buyerId, money), the others what it has under their own names.
\<close>

theorem export_has_nine_columns:
  assumes "getitem df ''money'' = Inr money" and "traverse (float_of l) money = Inr ms"
    and "getitem df ''quantity'' = Inr quantity"
    and "getitem df ''sellerId'' = Inr sellerId" and "getitem df ''buyerId'' = Inr buyerId"
    and "getitem df ''sellerCountryId'' = Inr sellerCountryId"
    and "getitem df ''buyerCountryId'' = Inr buyerCountryId"
    and "getitem df ''itemCode'' = Inr itemCode"
    and "getitem df ''updatedAt'' = Inr updatedAt" and "format_dates l updatedAt = Inr dates"
    and "list_all (int64_cell l) quantity"
  shows "\<exists>df' final. clean_and_export l st df = (df', Inr [ToCsv final, ToExcel final])
           \<and> columns final = export_columns
           \<and> nrows final = nrows df
           \<and> getitem final ''sellerCountry'' = getitem df' ''sellerCountryId''
           \<and> getitem final ''sellBy'' = getitem df' ''sellerId''
           \<and> getitem final ''buyerCountry'' = getitem df' ''buyerCountryId''
           \<and> getitem final ''buyerBy'' = getitem df' ''buyerId''
           \<and> getitem final ''totalMoney'' = getitem df' ''money''
           \<and> getitem final ''itemCode'' = getitem df' ''itemCode''
           \<and> getitem final ''itemCode'' = getitem df ''itemCode''
           \<and> getitem final ''quantity'' = getitem df' ''quantity''
           \<and> getitem final ''moneyPerUnit'' = getitem df' ''moneyPerUnit''
           \<and> getitem final ''updatedAt'' = getitem df' ''updatedAt''"
proof -
  let ?df' = "frame_after l st df ms quantity sellerId buyerId sellerCountryId buyerCountryId dates"
  let ?final = "final_df l st df ms quantity sellerId buyerId sellerCountryId buyerCountryId itemCode dates"
  have "clean_and_export l st df = (?df', Inr [ToCsv ?final, ToExcel ?final])"
    by (rule clean_and_export_success [OF assms(1-10)])
  moreover have "columns ?final = export_columns" and "nrows ?final = nrows df"
    by (simp_all add: final_df_def columns_def export_columns_def)
  moreover have "getitem ?final ''sellerCountry'' = getitem ?df' ''sellerCountryId''"
    "getitem ?final ''sellBy'' = getitem ?df' ''sellerId''"
    "getitem ?final ''buyerCountry'' = getitem ?df' ''buyerCountryId''"
    "getitem ?final ''buyerBy'' = getitem ?df' ''buyerId''"
    "getitem ?final ''totalMoney'' = getitem ?df' ''money''"
    "getitem ?final ''itemCode'' = getitem ?df' ''itemCode''"
    "getitem ?final ''itemCode'' = getitem df ''itemCode''"
    "getitem ?final ''quantity'' = getitem ?df' ''quantity''"
    "getitem ?final ''moneyPerUnit'' = getitem ?df' ''moneyPerUnit''"
    "getitem ?final ''updatedAt'' = getitem ?df' ''updatedAt''"
    by (simp_all add: frame_after_def getitem_setitem assms(8)) (simp_all add: final_df_def getitem_def)
  ultimately show ?thesis
    by blast
qed

text \<open>
  Witness for C5: the frame with the column \<^verbatim>\<open>_id\<close> more is exported with the nine
  columns, without \<^verbatim>\<open>_id\<close>.
\<close>

theorem export_has_nine_columns_witness:
  "\<exists>df' final. clean_and_export example_lib example_caches extra_df = (df', Inr [ToCsv final, ToExcel final])
     \<and> columns final = export_columns
     \<and> columns extra_df = ''_id'' # columns example_df
     \<and> getitem final ''itemCode'' = Inr [CStr ''bread'']"
proof -
  have "columns extra_df = ''_id'' # columns example_df"
    by (simp add: columns_def extra_df_eq example_df_eq)
  with export_has_nine_columns [OF extra_columns(1) extra_conversions(1) extra_columns(2-8)
      extra_conversions(2,3), of example_caches] extra_columns(7)
  show ?thesis
    by auto
qed

subsection \<open>Identifiers replaced through the caches\<close>

lemma looked_up_series_map: "looked_up cache s (series_map cache s)"
  by (auto simp: looked_up_def series_map_def split: option.splits)

lemma looked_up_unique: "looked_up cache s s' \<Longrightarrow> s' = series_map cache s"
  by (auto simp: looked_up_def series_map_def intro!: nth_equalityI split: option.splits)

text \<open>
  Claim C6. On the frames of claim C5 \<^verbatim>\<open>clean_and_export\<close> returns, with each of the
  columns sellerId and buyerId (through the user cache) and
  sellerCountryId and buyerCountryId (through the country cache) replaced, cell by cell,
  by the lookup of the raw identifier: exactly the cached name where the identifier is a
  key of the cache, and NaN, the missing marker, where it is not. The exported columns
  sellBy, buyerBy, sellerCountry and buyerCountry are these columns.
\<close>

theorem ids_replaced_by_lookup:
  assumes "getitem df ''money'' = Inr money" and "traverse (float_of l) money = Inr ms"
    and "getitem df ''quantity'' = Inr quantity"
    and "getitem df ''sellerId'' = Inr sellerId" and "getitem df ''buyerId'' = Inr buyerId"
    and "getitem df ''sellerCountryId'' = Inr sellerCountryId"
    and "getitem df ''buyerCountryId'' = Inr buyerCountryId"
    and "getitem df ''itemCode'' = Inr itemCode"
    and "getitem df ''updatedAt'' = Inr updatedAt" and "format_dates l updatedAt = Inr dates"
    and "list_all (int64_cell l) quantity"
  shows "\<exists>df' final sellBy buyerBy sellerCountry buyerCountry.
           clean_and_export l st df = (df', Inr [ToCsv final, ToExcel final])
         \<and> getitem df' ''sellerId'' = Inr sellBy \<and> getitem final ''sellBy'' = Inr sellBy
         \<and> looked_up (user_cache st) sellerId sellBy
         \<and> getitem df' ''buyerId'' = Inr buyerBy \<and> getitem final ''buyerBy'' = Inr buyerBy
         \<and> looked_up (user_cache st) buyerId buyerBy
         \<and> getitem df' ''sellerCountryId'' = Inr sellerCountry
         \<and> getitem final ''sellerCountry'' = Inr sellerCountry
         \<and> looked_up (country_cache st) sellerCountryId sellerCountry
         \<and> getitem df' ''buyerCountryId'' = Inr buyerCountry
         \<and> getitem final ''buyerCountry'' = Inr buyerCountry
         \<and> looked_up (country_cache st) buyerCountryId buyerCountry"
proof -
  let ?df' = "frame_after l st df ms quantity sellerId buyerId sellerCountryId buyerCountryId dates"
  let ?final = "final_df l st df ms quantity sellerId buyerId sellerCountryId buyerCountryId itemCode dates"
  have "clean_and_export l st df = (?df', Inr [ToCsv ?final, ToExcel ?final])"
    by (rule clean_and_export_success [OF assms(1-10)])
  moreover have "getitem ?df' ''sellerId'' = Inr (series_map (user_cache st) sellerId)"
    "getitem ?df' ''buyerId'' = Inr (series_map (user_cache st) buyerId)"
    "getitem ?df' ''sellerCountryId'' = Inr (series_map (country_cache st) sellerCountryId)"
    "getitem ?df' ''buyerCountryId'' = Inr (series_map (country_cache st) buyerCountryId)"
    by (simp_all add: frame_after_def getitem_setitem)
  moreover have "getitem ?final ''sellBy'' = Inr (series_map (user_cache st) sellerId)"
    "getitem ?final ''buyerBy'' = Inr (series_map (user_cache st) buyerId)"
    "getitem ?final ''sellerCountry'' = Inr (series_map (country_cache st) sellerCountryId)"
    "getitem ?final ''buyerCountry'' = Inr (series_map (country_cache st) buyerCountryId)"
    by (simp_all add: final_df_def getitem_def)
  ultimately show ?thesis
    using looked_up_series_map by blast
qed

text \<open>
  Witness for C6: in the example the seller \<open>A\<close> is cached and becomes \<open>alice\<close>, the
  buyer \<open>B\<close> is not cached and becomes NaN, not \<open>B\<close>.
\<close>

theorem ids_replaced_by_lookup_witness:
  "\<exists>df' final. clean_and_export example_lib example_caches example_df
                  = (df', Inr [ToCsv final, ToExcel final])
     \<and> getitem final ''sellBy'' = Inr [CStr ''alice'', CStr ''alice'']
     \<and> getitem final ''buyerBy'' = Inr [CFloat NaN, CFloat NaN]
     \<and> getitem df' ''buyerId'' = Inr [CFloat NaN, CFloat NaN]"
proof -
  from ids_replaced_by_lookup [OF example_columns(1) example_conversions(1) example_columns(2-8)
      example_conversions(2,3), of example_caches]
  obtain df' final sellBy buyerBy
    where run: "clean_and_export example_lib example_caches example_df = (df', Inr [ToCsv final, ToExcel final])"
    and s: "getitem final ''sellBy'' = Inr sellBy"
      "looked_up (user_cache example_caches) [CStr ''A'', CStr ''A''] sellBy"
    and b: "getitem df' ''buyerId'' = Inr buyerBy" "getitem final ''buyerBy'' = Inr buyerBy"
      "looked_up (user_cache example_caches) [CStr ''B'', CStr ''B''] buyerBy"
    by blast
  from looked_up_unique [OF s(2)] have "sellBy = [CStr ''alice'', CStr ''alice'']"
    by (simp add: series_map_def example_caches_def)
  moreover from looked_up_unique [OF b(3)] have "buyerBy = [CFloat NaN, CFloat NaN]"
    by (simp add: series_map_def example_caches_def)
  ultimately show ?thesis
    using run s(1) b(1,2) by blast
qed

subsection \<open>Numeric coercion\<close>

text \<open>A cell of the column \<^verbatim>\<open>pd.to_numeric\<close> returns, in terms of the cell it read.\<close>

lemma to_numeric_nth:
  "i < length s \<Longrightarrow>
     to_numeric l s ! i = (if list_all (\<lambda>c. is_integer (numeric_of l c)) s then cell_of (numeric_of l (s ! i))
                           else CFloat (to_float64 l (numeric_of l (s ! i))))"
  by (simp add: to_numeric_def Let_def list.pred_map comp_def)

lemma to_numeric_not_integer:
  "i < length s \<Longrightarrow> numeric_of l (s ! i) = Floating x \<Longrightarrow> to_numeric l s ! i = CFloat x"
  by (auto simp: to_numeric_nth list_all_length)




subsection \<open>The price per unit\<close>

text \<open>The division on a positive divisor, on NaN and on a zero.\<close>

lemma fdiv_positive:
  "0 < y \<Longrightarrow> fdiv rnd (Fin x) (Fin y) = (if x = 0 then Fin 0 else rnd (x / y))"
  by (auto simp: fdiv_def abs_if)

lemma fdiv_NaN: "fdiv rnd a NaN = NaN"
  by (simp add: fdiv_def)

lemma fdiv_zero:
  "is_zero b \<Longrightarrow> fdiv rnd a b =
     (if a = NaN \<or> is_zero a then NaN else if negative a \<noteq> negative b then NInf else PInf)"
  by (cases b; cases a) (auto simp: fdiv_def)

text \<open>
  Claim C3, as amended. Let the frame have the columns \<^verbatim>\<open>clean_and_export\<close> reads, let
  every money cell convert under \<^verbatim>\<open>astype(float)\<close>, let the timestamps format and let the
  integers of the quantity column have 64 bits. Then \<^verbatim>\<open>clean_and_export\<close> returns, so no
  division raises, and in the exported table moneyPerUnit
  is, row by row, the float division of totalMoney by quantity, the quantity being
  converted to a float first when it is an integer. For a finite money and a positive
  quantity it is the quotient of the two floats, rounded to a float. Where the quantity
  is missing or does not parse, the quantity is NaN and so is moneyPerUnit. Where the
  quantity is zero, moneyPerUnit is NaN only if the money is zero or NaN; otherwise it
  is an infinity, which is not a missing value.
\<close>

theorem moneyPerUnit_per_row:
  assumes "getitem df ''money'' = Inr money" and "traverse (float_of l) money = Inr ms"
    and "getitem df ''quantity'' = Inr quantity"
    and "getitem df ''sellerId'' = Inr sellerId" and "getitem df ''buyerId'' = Inr buyerId"
    and "getitem df ''sellerCountryId'' = Inr sellerCountryId"
    and "getitem df ''buyerCountryId'' = Inr buyerCountryId"
    and "getitem df ''itemCode'' = Inr itemCode"
    and "getitem df ''updatedAt'' = Inr updatedAt" and "format_dates l updatedAt = Inr dates"
    and "list_all (int64_cell l) quantity"
  shows "\<exists>df' final q p.
           clean_and_export l st df = (df', Inr [ToCsv final, ToExcel final])
         \<and> getitem final ''totalMoney'' = Inr (map CFloat ms)
         \<and> getitem final ''quantity'' = Inr q \<and> getitem final ''moneyPerUnit'' = Inr p
         \<and> length q = length quantity \<and> length p = min (length ms) (length quantity)
         \<and> (\<forall>i < length p. \<exists>b.
               as_float l (q ! i) = Some b \<and> b = to_float64 l (numeric_of l (quantity ! i))
             \<and> p ! i = CFloat (fdiv (round64 l) (ms ! i) b)
             \<and> (quantity ! i = CNone \<or> (\<exists>s. quantity ! i = CStr s \<and> to_numeric_str l s = None)
                  \<longrightarrow> q ! i = CFloat NaN \<and> p ! i = CFloat NaN)
             \<and> (\<forall>x y. ms ! i = Fin x \<and> b = Fin y \<and> 0 < y \<longrightarrow>
                    p ! i = CFloat (if x = 0 then Fin 0 else round64 l (x / y)))
             \<and> (b = NaN \<longrightarrow> p ! i = CFloat NaN)
             \<and> (is_zero b \<longrightarrow>
                    p ! i = CFloat (if ms ! i = NaN \<or> is_zero (ms ! i) then NaN
                                    else if negative (ms ! i) \<noteq> negative b then NInf else PInf)))"
proof -
  let ?df' = "frame_after l st df ms quantity sellerId buyerId sellerCountryId buyerCountryId dates"
  let ?final = "final_df l st df ms quantity sellerId buyerId sellerCountryId buyerCountryId itemCode dates"
  let ?q = "to_numeric l quantity" and ?p = "moneyPerUnit l ms quantity"
  have run: "clean_and_export l st df = (?df', Inr [ToCsv ?final, ToExcel ?final])"
    by (rule clean_and_export_success [OF assms(1-10)])
  have cols: "getitem ?final ''totalMoney'' = Inr (map CFloat ms)" "getitem ?final ''quantity'' = Inr ?q"
    "getitem ?final ''moneyPerUnit'' = Inr ?p"
    by (simp_all add: final_df_def getitem_def)
  have len: "length ?q = length quantity" "length ?p = min (length ms) (length quantity)"
    by (simp_all add: length_to_numeric moneyPerUnit_def)
  have row: "\<exists>b. as_float l (?q ! i) = Some b \<and> b = to_float64 l (numeric_of l (quantity ! i))
             \<and> ?p ! i = CFloat (fdiv (round64 l) (ms ! i) b)
             \<and> (quantity ! i = CNone \<or> (\<exists>s. quantity ! i = CStr s \<and> to_numeric_str l s = None)
                  \<longrightarrow> ?q ! i = CFloat NaN \<and> ?p ! i = CFloat NaN)
             \<and> (\<forall>x y. ms ! i = Fin x \<and> b = Fin y \<and> 0 < y \<longrightarrow>
                    ?p ! i = CFloat (if x = 0 then Fin 0 else round64 l (x / y)))
             \<and> (b = NaN \<longrightarrow> ?p ! i = CFloat NaN)
             \<and> (is_zero b \<longrightarrow>
                    ?p ! i = CFloat (if ms ! i = NaN \<or> is_zero (ms ! i) then NaN
                                    else if negative (ms ! i) \<noteq> negative b then NInf else PInf))"
    if "i < length ?p" for i
  proof -
    from that have i: "i < length ms" "i < length quantity"
      by (simp_all add: moneyPerUnit_def)
    let ?b = "to_float64 l (numeric_of l (quantity ! i))"
    have b: "as_float l (?q ! i) = Some ?b"
      using i(2) by (rule as_float_to_numeric)
    have p: "?p ! i = CFloat (fdiv (round64 l) (ms ! i) ?b)"
      using i by (simp add: moneyPerUnit_def)
    have "?q ! i = CFloat NaN \<and> ?p ! i = CFloat NaN"
      if "quantity ! i = CNone \<or> (\<exists>s. quantity ! i = CStr s \<and> to_numeric_str l s = None)"
    proof -
      from that have n: "numeric_of l (quantity ! i) = Floating NaN"
        by auto
      with i(2) have "?q ! i = CFloat NaN"
        by (rule to_numeric_not_integer)
      moreover from n p have "?p ! i = CFloat NaN"
        by (simp add: fdiv_NaN)
      ultimately show ?thesis ..
    qed
    moreover have "\<forall>x y. ms ! i = Fin x \<and> ?b = Fin y \<and> 0 < y \<longrightarrow>
                    ?p ! i = CFloat (if x = 0 then Fin 0 else round64 l (x / y))"
      using p by (auto simp: fdiv_positive)
    moreover have "?b = NaN \<longrightarrow> ?p ! i = CFloat NaN"
      using p by (simp add: fdiv_NaN)
    moreover have "is_zero ?b \<longrightarrow>
                    ?p ! i = CFloat (if ms ! i = NaN \<or> is_zero (ms ! i) then NaN
                                    else if negative (ms ! i) \<noteq> negative ?b then NInf else PInf)"
      using p by (simp add: fdiv_zero)
    ultimately show ?thesis
      using b p by blast
  qed
  from run cols len row show ?thesis
    by blast
qed

text \<open>
  Witness for C3: of the three transactions 100.0 for 4 units, 50.0 for \<open>many\<close> units
  and 7 for a missing quantity, the first row of moneyPerUnit is the quotient 25 and
  the other two are NaN.
\<close>

theorem moneyPerUnit_per_row_witness:
  "\<exists>df' final p. clean_and_export example_lib example_caches mixed_df
                  = (df', Inr [ToCsv final, ToExcel final])
     \<and> getitem final ''moneyPerUnit'' = Inr p \<and> length p = 3
     \<and> p ! 0 = CFloat (round64 example_lib (100 / 4)) \<and> p ! 1 = CFloat NaN \<and> p ! 2 = CFloat NaN"
proof -
  from moneyPerUnit_per_row [OF mixed_columns(1) mixed_conversions(1) mixed_columns(2-8)
      mixed_conversions(2,3), of example_caches]
  obtain df' final q p where run: "clean_and_export example_lib example_caches mixed_df
                  = (df', Inr [ToCsv final, ToExcel final])"
    and p: "getitem final ''moneyPerUnit'' = Inr p"
      "length p = min (length [Fin 100, Fin 50, Fin 7]) (length [CInt 4, CStr ''many'', CNone])"
    and rows: "\<forall>i < length p. \<exists>b.
               b = to_float64 example_lib (numeric_of example_lib ([CInt 4, CStr ''many'', CNone] ! i))
             \<and> ([CInt 4, CStr ''many'', CNone] ! i = CNone
                  \<or> (\<exists>s. [CInt 4, CStr ''many'', CNone] ! i = CStr s \<and> to_numeric_str example_lib s = None)
                  \<longrightarrow> q ! i = CFloat NaN \<and> p ! i = CFloat NaN)
             \<and> (\<forall>x y. [Fin 100, Fin 50, Fin 7] ! i = Fin x \<and> b = Fin y \<and> 0 < y \<longrightarrow>
                    p ! i = CFloat (if x = 0 then Fin 0 else round64 example_lib (x / y)))"
    by blast
  from p(2) have len: "length p = 3"
    by simp
  from rows [rule_format, of 0] len
  have "\<forall>x y. Fin 100 = Fin x \<and> round64 example_lib 4 = Fin y \<and> 0 < y \<longrightarrow>
                    p ! 0 = CFloat (if x = 0 then Fin 0 else round64 example_lib (x / y))"
    by simp
  from this [rule_format, of 100 4] have "p ! 0 = CFloat (round64 example_lib (100 / 4))"
    by (simp add: example_lib_def)
  moreover from rows [rule_format, of 1] len have "p ! 1 = CFloat NaN"
    by (auto simp: example_lib_def)
  moreover from rows [rule_format, of 2] len have "p ! 2 = CFloat NaN"
    by auto
  ultimately show ?thesis
    using run p(1) len by blast
qed

text \<open>
  The claim as the specification words it fails on the second of the two transactions
  100.0 for 4 units and 50.0 for 0 units: its quantity is zero and its money 50, and
  moneyPerUnit is plus infinity, which is not a missing value.
\<close>

theorem moneyPerUnit_per_row_counterexample:
  "clean_and_export example_lib example_caches example_df
     = (example_after, Inr [ToCsv example_final, ToExcel example_final])
   \<and> getitem example_final ''quantity'' = Inr [CInt 4, CInt 0]
   \<and> getitem example_final ''totalMoney'' = Inr [CFloat (Fin 100), CFloat (Fin 50)]
   \<and> getitem example_final ''moneyPerUnit'' = Inr [CFloat (Fin 25), CFloat PInf]
   \<and> \<not> isna (CFloat PInf)"
proof -
  have "getitem example_final ''quantity'' = Inr [CInt 4, CInt 0]"
    "getitem example_final ''totalMoney'' = Inr [CFloat (Fin 100), CFloat (Fin 50)]"
    "getitem example_final ''moneyPerUnit'' = Inr [CFloat (Fin 25), CFloat PInf]"
    by (simp_all add: example_final_def getitem_def)
  then show ?thesis
    using example_run by simp
qed

subsection \<open>The cleanup of the delimited file\<close>

text \<open>
  The reader sees again, in the fields the writer gives to a column it has read, the
  column it had read, when the values of the column are printed readably.
\<close>

lemma int_field_printed:
  assumes "is_int_field io f" and "printable_cell io (int_cell io f)"
  shows "is_int_field io (csv_field io None (int_cell io f))"
    and "int_cell io (csv_field io None (int_cell io f)) = int_cell io f"
  using assms by (auto simp: is_int_field_def int_cell_def)

lemma number_field_printed:
  assumes "is_number_field io f" and "na_value io []" and "printable_cell io (float_cell io f)"
  shows "\<not> is_int_field io (csv_field io None (float_cell io f))"
    and "is_number_field io (csv_field io None (float_cell io f))"
    and "float_cell io (csv_field io None (float_cell io f)) = float_cell io f"
  using assms by (auto simp: is_int_field_def is_number_field_def float_cell_def split: if_splits)

lemma object_field_printed:
  assumes "na_value io []"
  shows "is_int_field io (csv_field io None (object_cell io f)) = is_int_field io f"
    and "is_number_field io (csv_field io None (object_cell io f)) = is_number_field io f"
    and "object_cell io (csv_field io None (object_cell io f)) = object_cell io f"
  using assms by (auto simp: is_int_field_def is_number_field_def object_cell_def)

lemma read_column_cases:
  "list_all (is_int_field io) xs \<Longrightarrow> read_column io xs = map (int_cell io) xs"
  "\<not> list_all (is_int_field io) xs \<Longrightarrow> list_all (is_number_field io) xs
     \<Longrightarrow> read_column io xs = map (float_cell io) xs"
  "\<not> list_all (is_int_field io) xs \<Longrightarrow> \<not> list_all (is_number_field io) xs
     \<Longrightarrow> read_column io xs = map (object_cell io) xs"
  by (simp_all add: read_column_def)

lemma read_column_printed:
  assumes na: "na_value io []" and p: "list_all (printable_cell io) (read_column io fs)"
  shows "read_column io (map (csv_field io None) (read_column io fs)) = read_column io fs"
proof -
  consider (ints) "list_all (is_int_field io) fs"
    | (floats) "\<not> list_all (is_int_field io) fs" "list_all (is_number_field io) fs"
    | (strings) "\<not> list_all (is_int_field io) fs" "\<not> list_all (is_number_field io) fs"
    by blast
  then show ?thesis
  proof cases
    case ints
    then have s: "read_column io fs = map (int_cell io) fs"
      by (rule read_column_cases)
    with p ints have each: "\<forall>f \<in> set fs. is_int_field io f \<and> printable_cell io (int_cell io f)"
      by (simp add: list_all_iff)
    then have "list_all (is_int_field io) (map (csv_field io None) (map (int_cell io) fs))"
      by (simp add: list_all_iff int_field_printed(1))
    then have "read_column io (map (csv_field io None) (map (int_cell io) fs))
                 = map (int_cell io) (map (csv_field io None) (map (int_cell io) fs))"
      by (rule read_column_cases)
    also from each have "\<dots> = map (int_cell io) fs"
      by (simp add: int_field_printed(2))
    finally show ?thesis
      unfolding s .
  next
    case floats
    then have s: "read_column io fs = map (float_cell io) fs"
      by (rule read_column_cases)
    with p floats(2) have each: "\<forall>f \<in> set fs. is_number_field io f \<and> printable_cell io (float_cell io f)"
      by (simp add: list_all_iff)
    from floats(1) obtain f where "f \<in> set fs"
      by (cases fs) auto
    with each na have "\<not> list_all (is_int_field io) (map (csv_field io None) (map (float_cell io) fs))"
      by (auto simp: list_all_iff number_field_printed(1))
    moreover from each na
    have "list_all (is_number_field io) (map (csv_field io None) (map (float_cell io) fs))"
      by (simp add: list_all_iff number_field_printed(2))
    ultimately have "read_column io (map (csv_field io None) (map (float_cell io) fs))
                 = map (float_cell io) (map (csv_field io None) (map (float_cell io) fs))"
      by (rule read_column_cases)
    also from each na have "\<dots> = map (float_cell io) fs"
      by (simp add: number_field_printed(3))
    finally show ?thesis
      unfolding s .
  next
    case strings
    then have s: "read_column io fs = map (object_cell io) fs"
      by (rule read_column_cases)
    from strings(1) na have "\<not> list_all (is_int_field io) (map (csv_field io None) (map (object_cell io) fs))"
      by (simp add: list_all_iff object_field_printed(1))
    moreover from strings(2) na
    have "\<not> list_all (is_number_field io) (map (csv_field io None) (map (object_cell io) fs))"
      by (simp add: list_all_iff object_field_printed(2))
    ultimately have "read_column io (map (csv_field io None) (map (object_cell io) fs))
                 = map (object_cell io) (map (csv_field io None) (map (object_cell io) fs))"
      by (rule read_column_cases)
    also from na have "\<dots> = map (object_cell io) fs"
      by (simp add: object_field_printed(3))
    finally show ?thesis
      unfolding s .
  qed
qed

text \<open>
  A frame that was read from a file has one cell per row in every column, and the file
  written for such a frame has its columns as the columns of fields.
\<close>

lemma length_read_column: "length (read_column io fs) = length fs"
  by (simp add: read_column_def)

lemma wf_frame_read_csv: "wf_frame (read_csv io file)"
  by (simp add: wf_frame_def read_csv_def list_all_iff length_read_column)

lemma map_nth_upt: "map (\<lambda>j. g (xs ! j)) [0..<length xs] = map g xs"
  by (rule nth_equalityI) simp_all

lemma fields_to_csv:
  assumes "wf_frame df" and "j < length (cols df)"
  shows "map (\<lambda>r. field_at r j) (data_rows (to_csv io float_format df))
         = map (csv_field io float_format) (snd (cols df ! j))"
proof -
  from assms have len: "length (snd (cols df ! j)) = nrows df"
    by (cases "cols df ! j") (auto simp: wf_frame_def list_all_length)
  have "map (\<lambda>r. field_at r j) (data_rows (to_csv io float_format df))
          = map (\<lambda>i. csv_field io float_format (snd (cols df ! j) ! i)) [0..<nrows df]"
    using assms(2) by (simp add: to_csv_def field_at_def comp_def split: prod.splits)
  also have "\<dots> = map (csv_field io float_format) (snd (cols df ! j))"
    using map_nth_upt [of "csv_field io float_format" "snd (cols df ! j)"] len by simp
  finally show ?thesis .
qed

lemma read_csv_to_csv:
  assumes "wf_frame df"
  shows "read_csv io (to_csv io float_format df)
         = \<lparr> nrows = nrows df,
             cols = map (\<lambda>(k, s). (k, read_column io (map (csv_field io float_format) s))) (cols df) \<rparr>"
proof -
  have h: "header (to_csv io float_format df) = map fst (cols df)"
    by (simp add: to_csv_def columns_def)
  have "map (\<lambda>j. (header (to_csv io float_format df) ! j,
                 read_column io (map (\<lambda>r. field_at r j) (data_rows (to_csv io float_format df)))))
            [0..<length (header (to_csv io float_format df))]
        = map (\<lambda>j. (fst (cols df ! j), read_column io (map (csv_field io float_format) (snd (cols df ! j)))))
            [0..<length (cols df)]"
    by (simp add: h fields_to_csv [OF assms] cong: map_cong)
  also have "\<dots> = map (\<lambda>(k, s). (k, read_column io (map (csv_field io float_format) s))) (cols df)"
    using map_nth_upt [of "\<lambda>(k, s). (k, read_column io (map (csv_field io float_format) s))" "cols df"]
    by (simp add: case_prod_unfold)
  finally have "cols (read_csv io (to_csv io float_format df))
      = map (\<lambda>(k, s). (k, read_column io (map (csv_field io float_format) s))) (cols df)"
    by (simp add: read_csv_def)
  moreover have "nrows (read_csv io (to_csv io float_format df)) = nrows df"
    by (simp add: read_csv_def to_csv_def)
  ultimately show ?thesis
    by simp
qed

text \<open>Reading the file that the cleanup wrote gives the frame the cleanup had read.\<close>

lemma read_csv_cleanup_csv:
  assumes "printable io (read_csv io file)"
  shows "read_csv io (cleanup_csv io file) = read_csv io file"
proof -
  let ?df = "read_csv io file"
  from assms have na: "na_value io []"
    and p: "\<forall>j < length (header file).
              list_all (printable_cell io) (read_column io (map (\<lambda>r. field_at r j) (data_rows file)))"
    by (simp_all add: printable_def read_csv_def list_all_iff)
  have same: "map (\<lambda>(k, s). (k, read_column io (map (csv_field io None) s))) (cols ?df) = cols ?df"
    using na p by (simp add: read_csv_def read_column_printed)
  have "read_csv io (to_csv io None ?df) = \<lparr>nrows = nrows ?df, cols = cols ?df\<rparr>"
    unfolding read_csv_to_csv [OF wf_frame_read_csv] same ..
  then show ?thesis
    by (simp add: cleanup_csv_def)
qed

lemma example_exported:
  "exported_csv example_io example_final = example_csv"
  by (simp add: exported_csv_def to_csv_def example_final_def example_csv_def columns_def example_io_def
      upt_rec numeral_2_eq_2)

lemma example_read:
  "read_csv example_io example_csv =
     \<lparr> nrows = 2,
       cols = [(''sellerCountry'', [CStr ''Chile'', CStr ''Chile'']),
               (''sellBy'', [CStr ''alice'', CStr ''alice'']),
               (''itemCode'', [CStr ''bread'', CStr ''bread'']),
               (''quantity'', [CInt 4, CInt 0]),
               (''moneyPerUnit'', [CFloat (Fin 25), CFloat PInf]),
               (''buyerCountry'', [CFloat NaN, CFloat NaN]),
               (''buyerBy'', [CFloat NaN, CFloat NaN]),
               (''totalMoney'', [CFloat (Fin 100), CFloat (Fin 50)]),
               (''updatedAt'', [CStr ''01/06/2025 12:30'', CStr ''01/06/2025 12:30''])] \<rparr>"
  by (simp add: read_csv_def example_csv_def read_column_def field_at_def example_io_def upt_rec
      is_int_field_def is_number_field_def int_cell_def float_cell_def object_cell_def)

lemma example_cleanup:
  "cleanup_csv example_io example_csv = example_csv_clean"
  unfolding cleanup_csv_def example_read
  by (simp add: to_csv_def columns_def example_csv_clean_def example_io_def upt_rec numeral_2_eq_2)

lemma example_printable: "printable example_io (read_csv example_io example_csv)"
  unfolding example_read
  by (simp add: printable_def example_io_def)


text \<open>
  Claim C8, as amended. The cleanup of the delimited file writes no byte-order mark,
  keeps the number of data rows, and writes every field anew from the value read in it.
  When the values read print readably (an integer and a float are read again from the
  text the writer gives them), the frame read from the rewritten file is the frame read
  from the file, and the cleanup is a no-op on a file it has itself written: cleaning a
  second time gives the same file, header and data rows. It is not a no-op on the file
  \<^verbatim>\<open>clean_and_export\<close> writes, whose floats have four decimals.
\<close>

theorem cleanup_csv_idempotent:
  assumes "printable io (read_csv io file)"
  shows "cleanup_csv io (cleanup_csv io file) = cleanup_csv io file
       \<and> read_csv io (cleanup_csv io file) = read_csv io file
       \<and> \<not> bom (cleanup_csv io file)
       \<and> length (data_rows (cleanup_csv io file)) = length (data_rows file)
       \<and> (\<forall>i < length (data_rows file). \<forall>j < length (header file).
             data_rows (cleanup_csv io file) ! i ! j
               = csv_field io None (read_column io (map (\<lambda>r. field_at r j) (data_rows file)) ! i))"
proof -
  have "read_csv io (cleanup_csv io file) = read_csv io file"
    using assms by (rule read_csv_cleanup_csv)
  moreover from this have "cleanup_csv io (cleanup_csv io file) = cleanup_csv io file"
    by (simp add: cleanup_csv_def)
  moreover have "\<not> bom (cleanup_csv io file)"
    and "length (data_rows (cleanup_csv io file)) = length (data_rows file)"
    by (simp_all add: cleanup_csv_def to_csv_def read_csv_def)
  moreover have "\<forall>i < length (data_rows file). \<forall>j < length (header file).
             data_rows (cleanup_csv io file) ! i ! j
               = csv_field io None (read_column io (map (\<lambda>r. field_at r j) (data_rows file)) ! i)"
    by (simp add: cleanup_csv_def to_csv_def read_csv_def)
  ultimately show ?thesis
    by simp
qed

text \<open>
  Witness for C8: the file that the cleanup makes of the export of the two example
  transactions is left as it is by a second cleanup.
\<close>

theorem cleanup_csv_idempotent_witness:
  "printable example_io (read_csv example_io example_csv)
   \<and> cleanup_csv example_io example_csv = example_csv_clean
   \<and> cleanup_csv example_io example_csv_clean = example_csv_clean
   \<and> read_csv example_io example_csv_clean = read_csv example_io example_csv"
  using cleanup_csv_idempotent [OF example_printable] example_printable
  by (simp add: example_cleanup)

text \<open>
  Counterexample to C8 as stated: the delimited file exported for the two example
  transactions has no byte-order mark, and the cleanup changes its data rows: the price
  \<open>25.0000\<close> of the first row is rewritten as \<open>25.0\<close>.
\<close>

theorem cleanup_csv_idempotent_counterexample:
  "clean_and_export example_lib example_caches example_df
     = (example_after, Inr [ToCsv example_final, ToExcel example_final])
   \<and> exported_csv example_io example_final = example_csv
   \<and> \<not> bom example_csv
   \<and> cleanup_csv example_io example_csv = example_csv_clean
   \<and> data_rows example_csv_clean \<noteq> data_rows example_csv
   \<and> data_rows example_csv ! 0 ! 4 = ''25.0000''
   \<and> data_rows example_csv_clean ! 0 ! 4 = ''25.0''"
proof -
  have "\<not> bom example_csv" "data_rows example_csv_clean \<noteq> data_rows example_csv"
    "data_rows example_csv ! 0 ! 4 = ''25.0000''" "data_rows example_csv_clean ! 0 ! 4 = ''25.0''"
    by (simp_all add: example_csv_def example_csv_clean_def)
  then show ?thesis
    using example_run example_exported example_cleanup by simp
qed

end
